theory Spec2Isabelle
  imports Main
begin

section \<open>Python values\<close>

text \<open>
  The engine is dynamically typed: whatever \<^verbatim>\<open>json.loads\<close> makes of the service's text
  flows into the session unchecked. The values it can make are modelled by one datatype:
  \<^verbatim>\<open>None\<close>, \<^verbatim>\<open>bool\<close>, \<^verbatim>\<open>int\<close> (unbounded), \<^verbatim>\<open>float\<close>, \<^verbatim>\<open>str\<close>, \<^verbatim>\<open>list\<close> and \<^verbatim>\<open>dict\<close>.
  A float is identified by its \<^verbatim>\<open>repr\<close> (every float has exactly one), a \<^verbatim>\<open>dict\<close> is an
  association list in insertion order whose keys are distinct, and a \<^verbatim>\<open>str\<close> is a
  \<^typ>\<open>string\<close> whose characters stand for code points below 256.
\<close>

datatype json =
    JNull
  | JBool bool
  | JInt int
  | JFloat string
  | JStr string
  | JArr "json list"
  | JObj "(string \<times> json) list"

abbreviation nl :: char where
  "nl \<equiv> CHR 0x0A"

abbreviation sq :: char where
  "sq \<equiv> CHR 0x27"

text \<open>
  The exceptions that occur. \<open>Exception m\<close> is the plain \<^verbatim>\<open>Exception(m)\<close> that the client
  raises; \<open>KeyError k\<close> is a missing dictionary key; \<open>TypeError\<close> stands for subscripting or
  iterating a value that does not support it and \<open>AttributeError\<close> for calling
  \<^verbatim>\<open>.get\<close> on a value that is not a \<^verbatim>\<open>dict\<close> (their messages are never read).
\<close>

datatype error =
    Exception string
  | KeyError string
  | TypeError
  | AttributeError


text \<open>
  Two functions of the Python library are parameters of the model: \<^verbatim>\<open>json.loads\<close> on a
  \<^verbatim>\<open>str\<close> (\<open>Inl m\<close> when it raises an exception \<^verbatim>\<open>e\<close> with \<^verbatim>\<open>str(e) = m\<close>) and
  \<^verbatim>\<open>repr\<close> on a \<^verbatim>\<open>str\<close> (its quoting and escaping rules).
\<close>

record pylib =
  json_loads :: "string \<Rightarrow> string + json"
  repr_str :: "string \<Rightarrow> string"

text \<open>\<^verbatim>\<open>sep.join(xs)\<close>\<close>

fun join :: "string \<Rightarrow> string list \<Rightarrow> string" where
  "join sep [] = []"
| "join sep [x] = x"
| "join sep (x # y # ys) = x @ sep @ join sep (y # ys)"

text \<open>\<^verbatim>\<open>str\<close> of an \<^verbatim>\<open>int\<close>: its decimal digits, with a minus sign when negative.\<close>

fun nat_str :: "nat \<Rightarrow> string" where
  "nat_str n =
     (if n < 10 then [char_of (48 + n)]
      else nat_str (n div 10) @ [char_of (48 + n mod 10)])"

declare nat_str.simps [simp del]

definition int_str :: "int \<Rightarrow> string" where
  "int_str i = (if i < 0 then ''-'' @ nat_str (nat (- i)) else nat_str (nat i))"

text \<open>\<^verbatim>\<open>repr\<close> of a value, given \<^verbatim>\<open>repr\<close> on strings.\<close>

fun py_repr :: "(string \<Rightarrow> string) \<Rightarrow> json \<Rightarrow> string" where
  "py_repr q JNull = ''None''"
| "py_repr q (JBool b) = (if b then ''True'' else ''False'')"
| "py_repr q (JInt i) = int_str i"
| "py_repr q (JFloat r) = r"
| "py_repr q (JStr s) = q s"
| "py_repr q (JArr xs) = ''['' @ join '', '' (map (py_repr q) xs) @ '']''"
| "py_repr q (JObj kvs) =
     ''{'' @ join '', '' (map (\<lambda>(k, v). q k @ '': '' @ py_repr q v) kvs) @ ''}''"

text \<open>
  \<^verbatim>\<open>str(v)\<close>, which is what an f-string writes for \<^verbatim>\<open>{v}\<close>: a \<^verbatim>\<open>str\<close> is written as it
  is, every other value as its \<^verbatim>\<open>repr\<close>.
\<close>

definition py_str :: "pylib \<Rightarrow> json \<Rightarrow> string" where
  "py_str lib v = (case v of JStr s \<Rightarrow> s | _ \<Rightarrow> py_repr (repr_str lib) v)"

text \<open>Truth value of a value in a condition (\<^verbatim>\<open>if v:\<close>).\<close>

fun py_truthy :: "json \<Rightarrow> bool" where
  "py_truthy JNull = False"
| "py_truthy (JBool b) = b"
| "py_truthy (JInt i) = (i \<noteq> 0)"
| "py_truthy (JFloat r) = (r \<noteq> ''0.0'' \<and> r \<noteq> ''-0.0'')"
| "py_truthy (JStr s) = (s \<noteq> [])"
| "py_truthy (JArr xs) = (xs \<noteq> [])"
| "py_truthy (JObj kvs) = (kvs \<noteq> [])"

text \<open>\<^verbatim>\<open>v[key]\<close> with a \<^verbatim>\<open>str\<close> key: only a \<^verbatim>\<open>dict\<close> can be subscripted by a string.\<close>

fun py_getitem :: "json \<Rightarrow> string \<Rightarrow> error + json" where
  "py_getitem (JObj kvs) key =
     (case map_of kvs key of None \<Rightarrow> Inl (KeyError key) | Some x \<Rightarrow> Inr x)"
| "py_getitem v key = Inl TypeError"

text \<open>\<^verbatim>\<open>v.get(key, default)\<close>: only a \<^verbatim>\<open>dict\<close> has the method.\<close>

fun dict_get :: "json \<Rightarrow> string \<Rightarrow> json \<Rightarrow> error + json" where
  "dict_get (JObj kvs) key dflt =
     (case map_of kvs key of None \<Rightarrow> Inr dflt | Some x \<Rightarrow> Inr x)"
| "dict_get v key dflt = Inl AttributeError"

text \<open>
  The elements that iterating a value yields: the elements of a \<^verbatim>\<open>list\<close>, the characters
  of a \<^verbatim>\<open>str\<close> (as one-character strings), the keys of a \<^verbatim>\<open>dict\<close>; nothing else can be
  iterated.
\<close>

fun py_iter :: "json \<Rightarrow> error + json list" where
  "py_iter (JArr xs) = Inr xs"
| "py_iter (JStr s) = Inr (map (\<lambda>c. JStr [c]) s)"
| "py_iter (JObj kvs) = Inr (map (\<lambda>kv. JStr (fst kv)) kvs)"
| "py_iter v = Inl TypeError"

section \<open>Scenario catalog (\<^verbatim>\<open>scenarios.py\<close>)\<close>

record HistoricalScenario =
  name :: string
  description :: string
  time_period :: string
  initial_situation :: string

definition library_alexandria :: HistoricalScenario where
  "library_alexandria = \<lparr>
     name = ''The Library of Alexandria'',
     description = ''What if the great Library of Alexandria was never destroyed?'',
     time_period = ''48 BCE - 641 CE'',
     initial_situation =
       ''You are the head librarian of the Great Library of Alexandria in 48 '' @
       ''BCE. Julius Caesar's forces have accidentally started a fire that '' @
       ''threatens to spread to the library district. You must decide how to '' @
       ''protect the world's greatest collection of knowledge while the city '' @
       ''burns around you.''\<rparr>"

definition mongol_europe :: HistoricalScenario where
  "mongol_europe = \<lparr>
     name = ''Mongol Invasion of Europe'',
     description = ''What if the Mongols had successfully conquered all of Europe?'',
     time_period = ''1241 CE'',
     initial_situation =
       ''You are '' @
       [CHR 0xD6] @
       ''gedei Khan, son of Genghis Khan, and your Mongol forces have just '' @
       ''crushed European armies at Mohi and Legnica. All of Europe lies open '' @
       ''before you, but news arrives that forces you to make a crucial '' @
       ''decision about the future of your western campaign.''\<rparr>"

definition columbus_pacific :: HistoricalScenario where
  "columbus_pacific = \<lparr>
     name = ''Columbus Sails West to Asia'',
     description = ''What if Columbus had actually reached Asia by sailing west?'',
     time_period = ''1492 CE'',
     initial_situation =
       ''You are Christopher Columbus, and after months at sea, you've finally '' @
       ''reached what you believe to be the Indies. However, the lands and '' @
       ''peoples you encounter are unlike anything described by Marco Polo. '' @
       ''You must decide how to proceed with your mission while managing '' @
       ''increasingly restless crew members.''\<rparr>"

definition black_death :: HistoricalScenario where
  "black_death = \<lparr>
     name = ''The Black Death Prevention'',
     description = ''What if medieval physicians had understood disease transmission?'',
     time_period = ''1347 CE'',
     initial_situation =
       ''You are a physician in the port city of Genoa when ships arrive '' @
       ''carrying a mysterious plague from the East. Unlike your '' @
       ''contemporaries, you suspect this disease spreads through contact '' @
       ''rather than 'bad air.' You must convince the city authorities to take '' @
       ''unprecedented quarantine measures.''\<rparr>"

definition archduke_survives :: HistoricalScenario where
  "archduke_survives = \<lparr>
     name = ''Archduke Franz Ferdinand Lives'',
     description = ''What if the assassination of Archduke Franz Ferdinand had failed?'',
     time_period = ''June 28, 1914'',
     initial_situation =
       ''You are Archduke Franz Ferdinand of Austria-Hungary, and you've just '' @
       ''survived an assassination attempt in Sarajevo. Your driver took a '' @
       ''wrong turn, but your quick thinking saved your life when Gavrilo '' @
       ''Princip's shot missed. As tensions rise across Europe, you must '' @
       ''decide how to respond to this act of Serbian nationalism while your '' @
       ''empire teeters on the brink of war.''\<rparr>"

definition lusitania_warning :: HistoricalScenario where
  "lusitania_warning = \<lparr>
     name = ''The Lusitania's Final Voyage'',
     description = ''What if the Lusitania had heeded Germany's submarine warnings?'',
     time_period = ''May 7, 1915'',
     initial_situation =
       ''You are Captain William Turner of the RMS Lusitania. German U-boats '' @
       ''have been attacking ships in these waters, and you've received '' @
       ''warnings about submarine activity. Your ship carries 1,962 passengers '' @
       ''and crew, including many Americans. You must decide whether to alter '' @
       ''course, reduce speed for safety, or maintain schedule despite the '' @
       ''submarine threat off the Irish coast.''\<rparr>"

definition zimmermann_intercepted :: HistoricalScenario where
  "zimmermann_intercepted = \<lparr>
     name = ''The Zimmermann Telegram Plot'',
     description = ''What if Germany's secret alliance offer to Mexico had succeeded?'',
     time_period = ''January 1917'',
     initial_situation =
       ''You are Foreign Secretary Arthur Zimmermann of Germany. Your secret '' @
       ''telegram proposing a German-Mexican alliance against the United '' @
       ''States has been sent, but you're unaware that British intelligence '' @
       ''has intercepted it. Mexico shows interest in your offer of reclaiming '' @
       ''Texas, New Mexico, and Arizona. You must decide how to proceed with '' @
       ''this alliance while managing the risk of bringing America into the '' @
       ''European war.''\<rparr>"

definition hitler_art_school :: HistoricalScenario where
  "hitler_art_school = \<lparr>
     name = ''The Rejected Artist's Path'',
     description = ''What if Adolf Hitler had been accepted into art school?'',
     time_period = ''September 1907'',
     initial_situation =
       ''You are the admissions director of the Vienna Academy of Fine Arts. A '' @
       ''passionate young man named Adolf Hitler from Austria has applied for '' @
       ''the second time after being rejected last year. His artwork shows '' @
       ''some talent but lacks technical skill. However, his determination is '' @
       ''evident. You must decide whether to give him another chance, knowing '' @
       ''that this decision could alter the path of a future political figure.''\<rparr>"

definition pearl_harbor_warning :: HistoricalScenario where
  "pearl_harbor_warning = \<lparr>
     name = ''The Pearl Harbor Intelligence'',
     description = ''What if the US had acted on early warnings about Pearl Harbor?'',
     time_period = ''December 6, 1941'',
     initial_situation =
       ''You are Admiral Husband Kimmel, commander of the US Pacific Fleet at '' @
       ''Pearl Harbor. Intelligence reports suggest increased Japanese naval '' @
       ''activity, and you've received vague warnings about possible attacks. '' @
       ''However, Washington believes any Japanese action will target the '' @
       ''Philippines or Southeast Asia. With limited resources and conflicting '' @
       ''intelligence, you must decide how to position your fleet and defenses '' @
       ''for the next 24 hours.''\<rparr>"

definition operation_barbarossa :: HistoricalScenario where
  "operation_barbarossa = \<lparr>
     name = ''Stalin's Dilemma'',
     description = ''What if Stalin had believed the warnings about German invasion?'',
     time_period = ''June 20, 1941'',
     initial_situation =
       ''You are Joseph Stalin, and multiple intelligence sources are warning '' @
       ''that Germany is about to break the Molotov-Ribbentrop Pact and invade '' @
       ''the Soviet Union. Your generals urge mobilization, but you fear that '' @
       ''aggressive preparations might provoke Hitler into an attack he's not '' @
       ''actually planning. German troops are massing on your border, but '' @
       ''diplomatic channels remain open. You must decide whether to fully '' @
       ''mobilize the Red Army or maintain the non-aggression pact.''\<rparr>"

definition d_day_weather :: HistoricalScenario where
  "d_day_weather = \<lparr>
     name = ''D-Day: The Weather Decision'',
     description = ''What if Operation Overlord had been postponed due to weather?'',
     time_period = ''June 4, 1944'',
     initial_situation =
       ''You are General Dwight D. Eisenhower, Supreme Allied Commander. '' @
       ''Operation Overlord, the invasion of Normandy, is scheduled for '' @
       ''tomorrow, but meteorologists predict terrible weather - high winds '' @
       ''and rough seas that could doom the operation. Postponing means losing '' @
       ''the element of surprise and risking German reinforcements. The tides '' @
       ''won't be favorable again for weeks. You must decide whether to '' @
       ''proceed with the invasion despite the weather or postpone and risk '' @
       ''the consequences.''\<rparr>"

definition AVAILABLE_SCENARIOS :: "(string \<times> HistoricalScenario) list" where
  "AVAILABLE_SCENARIOS =
     [(''library_alexandria'', library_alexandria),
      (''mongol_europe'', mongol_europe),
      (''columbus_pacific'', columbus_pacific),
      (''black_death'', black_death),
      (''archduke_survives'', archduke_survives),
      (''lusitania_warning'', lusitania_warning),
      (''zimmermann_intercepted'', zimmermann_intercepted),
      (''hitler_art_school'', hitler_art_school),
      (''pearl_harbor_warning'', pearl_harbor_warning),
      (''operation_barbarossa'', operation_barbarossa),
      (''d_day_weather'', d_day_weather)]"

text \<open>\<^verbatim>\<open>AVAILABLE_SCENARIOS.get(key)\<close>\<close>

definition scenarios_get :: "string \<Rightarrow> HistoricalScenario option" where
  "scenarios_get key = map_of AVAILABLE_SCENARIOS key"

definition get_scenario_list :: "(string \<times> string) list" where
  "get_scenario_list = map (\<lambda>(key, scenario). (key, description scenario)) AVAILABLE_SCENARIOS"

section \<open>Narration client (\<^verbatim>\<open>ai_client.py\<close>)\<close>

text \<open>
  The text-generation service is outside the program. A request is what
  \<^verbatim>\<open>chat.completions.create\<close> is called with (the sampling temperature is kept as the
  literal of the source); the service's behaviour is an arbitrary function of the number
  of requests made so far and of the request, so that two equal requests may be answered
  differently. \<open>Raised m\<close>: the call, or reading \<^verbatim>\<open>response.choices[0].message.content\<close>,
  raised an exception \<^verbatim>\<open>e\<close> with \<^verbatim>\<open>str(e) = m\<close>. \<open>Content c\<close>: the content of the first
  choice's message, which is a \<^verbatim>\<open>str\<close> or \<^verbatim>\<open>None\<close>. The list of requests sent is the
  observable trace of the client.
\<close>

record request =
  model :: string
  messages :: "(string \<times> string) list"
  max_tokens :: nat
  temperature :: string

datatype completion =
    Raised string
  | Content "string option"

type_synonym service = "nat \<Rightarrow> request \<Rightarrow> completion"

definition system_content :: string where
  "system_content =
     ''You are an expert historian and creative writer specializing in '' @
     ''alternate history scenarios. Always respond with valid JSON.''"

definition choices_request :: "string \<Rightarrow> request" where
  "choices_request prompt =
     \<lparr>model = ''gpt-4'',
      messages = [(''system'', system_content), (''user'', prompt)],
      max_tokens = 500,
      temperature = ''0.7''\<rparr>"

definition consequence_request :: "string \<Rightarrow> request" where
  "consequence_request prompt =
     \<lparr>model = ''gpt-4'',
      messages = [(''system'', system_content), (''user'', prompt)],
      max_tokens = 800,
      temperature = ''0.7''\<rparr>"

text \<open>
  \<^verbatim>\<open>generate_choices\<close>: every exception of the call is re-raised as a plain
  \<^verbatim>\<open>Exception\<close>; otherwise the raw content is returned.
\<close>

definition generate_choices ::
  "service \<Rightarrow> request list \<Rightarrow> string \<Rightarrow> (error + string option) \<times> request list" where
  "generate_choices api sent prompt =
     (let req = choices_request prompt in
      case api (length sent) req of
        Raised m \<Rightarrow> (Inl (Exception (''AI choice generation failed: '' @ m)), sent @ [req])
      | Content c \<Rightarrow> (Inr c, sent @ [req]))"

text \<open>
  \<^verbatim>\<open>json.loads(content)\<close>: on \<^verbatim>\<open>None\<close> it raises a \<^verbatim>\<open>TypeError\<close> with the message below.
\<close>

definition loads :: "pylib \<Rightarrow> string option \<Rightarrow> string + json" where
  "loads lib content =
     (case content of
        None \<Rightarrow> Inl ''the JSON object must be str, bytes or bytearray, not NoneType''
      | Some text \<Rightarrow> json_loads lib text)"

text \<open>
  \<^verbatim>\<open>generate_consequence\<close>: the call and \<^verbatim>\<open>json.loads\<close> are inside one \<^verbatim>\<open>try\<close>, and
  the handler re-raises whatever was caught as a plain \<^verbatim>\<open>Exception\<close>.
\<close>

definition generate_consequence ::
  "pylib \<Rightarrow> service \<Rightarrow> request list \<Rightarrow> string \<Rightarrow> (error + json) \<times> request list" where
  "generate_consequence lib api sent prompt =
     (let req = consequence_request prompt in
      case api (length sent) req of
        Raised m \<Rightarrow>
          (Inl (Exception (''AI consequence generation failed: '' @ m)), sent @ [req])
      | Content c \<Rightarrow>
          (case loads lib c of
             Inl m \<Rightarrow>
               (Inl (Exception (''AI consequence generation failed: '' @ m)), sent @ [req])
           | Inr v \<Rightarrow> (Inr v, sent @ [req])))"

section \<open>Game engine (\<^verbatim>\<open>game_engine.py\<close>)\<close>

text \<open>
  \<^verbatim>\<open>current_situation\<close> starts as the scenario's text and is later whatever value the
  service's record holds under \<^verbatim>\<open>new_situation\<close>; the entries of \<^verbatim>\<open>choices_made\<close> and
  \<^verbatim>\<open>timeline_alterations\<close> are values of the service's records too. The leading
  underscore of a private name is dropped. The loading indicator of the console
  (\<^verbatim>\<open>self.ui\<close>) returns nothing to the engine and is left out.
\<close>

record GameState =
  scenario :: HistoricalScenario
  current_situation :: json
  choices_made :: "json list"
  timeline_alterations :: "json list"
  is_complete :: bool

definition new_GameState :: "HistoricalScenario \<Rightarrow> GameState" where
  "new_GameState sc =
     \<lparr>scenario = sc,
      current_situation = JStr (initial_situation sc),
      choices_made = [],
      timeline_alterations = [],
      is_complete = False\<rparr>"

record GameEngine =
  current_state :: "GameState option"
  active :: bool

definition new_GameEngine :: GameEngine where
  "new_GameEngine = \<lparr>current_state = None, active = False\<rparr>"

definition start_scenario :: "string \<Rightarrow> GameEngine \<Rightarrow> bool \<times> GameEngine" where
  "start_scenario scenario_name eng =
     (case scenarios_get scenario_name of
        None \<Rightarrow> (False, eng)
      | Some sc \<Rightarrow> (True, eng\<lparr>current_state := Some (new_GameState sc), active := True\<rparr>))"

definition is_active :: "GameEngine \<Rightarrow> bool" where
  "is_active eng =
     (active eng \<and>
      (case current_state eng of None \<Rightarrow> False | Some st \<Rightarrow> \<not> is_complete st))"

text \<open>\<^verbatim>\<open>get_current_state\<close>: \<open>None\<close> is the empty dictionary returned without a session.\<close>

record state_view =
  view_scenario_name :: string
  view_situation :: json
  view_choices_made :: nat
  view_timeline_alterations :: "json list"

definition get_current_state :: "GameEngine \<Rightarrow> state_view option" where
  "get_current_state eng =
     (case current_state eng of
        None \<Rightarrow> None
      | Some st \<Rightarrow>
          Some \<lparr>view_scenario_name = name (scenario st),
                view_situation = current_situation st,
                view_choices_made = length (choices_made st),
                view_timeline_alterations = timeline_alterations st\<rparr>)"

definition get_fallback_choices :: json where
  "get_fallback_choices =
     JArr
      [JObj [(''id'', JStr ''diplomatic''),
             (''description'', JStr ''Pursue diplomatic negotiations''),
             (''potential_impact'',
              JStr ''May lead to peaceful resolution but could show weakness'')],
       JObj [(''id'', JStr ''aggressive''),
             (''description'', JStr ''Take decisive military action''),
             (''potential_impact'', JStr ''Quick results but may escalate conflict'')],
       JObj [(''id'', JStr ''wait''),
             (''description'', JStr ''Wait and gather more information''),
             (''potential_impact'', JStr ''Safer approach but may miss opportunities'')]]"

text \<open>
  \<^verbatim>\<open>_parse_ai_choices\<close>: the bare \<^verbatim>\<open>except\<close> turns a failure of \<^verbatim>\<open>json.loads\<close> and the
  \<^verbatim>\<open>AttributeError\<close> of \<^verbatim>\<open>.get\<close> on a value that is not a \<^verbatim>\<open>dict\<close> into the fallback
  choices. The value found under \<^verbatim>\<open>choices\<close> is returned as it is.
\<close>

definition parse_ai_choices :: "pylib \<Rightarrow> string option \<Rightarrow> json" where
  "parse_ai_choices lib ai_response =
     (case loads lib ai_response of
        Inl m \<Rightarrow> get_fallback_choices
      | Inr data \<Rightarrow>
          (case dict_get data ''choices'' (JArr []) of
             Inl e \<Rightarrow> get_fallback_choices
           | Inr v \<Rightarrow> v))"

text \<open>The text of the two prompts, with the formatted values passed in.\<close>

definition choice_generation_text :: "string \<Rightarrow> string \<Rightarrow> string \<Rightarrow> string" where
  \<open>choice_generation_text scenario_name situation previous =
     [nl] @
     ''        You are creating an alternate history scenario. '' @ [nl] @
     ''        '' @ [nl] @
     ''        Historical Context: '' @ scenario_name @ [nl] @
     ''        Current Situation: '' @ situation @ [nl] @
     ''        Previous Choices: '' @ previous @ [nl] @
     ''        '' @ [nl] @
     ''        Generate 3-4 plausible choices that a key decision-maker in this situation might face.'' @ [nl] @
     ''        Each choice should have the potential to significantly alter the course of history.'' @ [nl] @
     ''        '' @ [nl] @
     ''        Return the response in this exact JSON format:'' @ [nl] @
     ''        {'' @ [nl] @
     ''            "choices": ['' @ [nl] @
     ''                {'' @ [nl] @
     ''                    "id": "choice_1",'' @ [nl] @
     ''                    "description": "Brief description of the choice",'' @ [nl] @
     ''                    "potential_impact": "Short description of potential consequences"'' @ [nl] @
     ''                }'' @ [nl] @
     ''            ]'' @ [nl] @
     ''        }'' @ [nl] @
     ''        ''\<close>

definition consequence_text :: "string \<Rightarrow> string \<Rightarrow> string \<Rightarrow> string" where
  \<open>consequence_text scenario_name situation choice_made =
     [nl] @
     ''        You are narrating an alternate history scenario.'' @ [nl] @
     ''        '' @ [nl] @
     ''        Historical Context: '' @ scenario_name @ [nl] @
     ''        Current Situation: '' @ situation @ [nl] @
     ''        Choice Made: '' @ choice_made @ [nl] @
     ''        '' @ [nl] @
     ''        Generate the immediate and long-term consequences of this choice.'' @ [nl] @
     ''        Show how this decision ripples through history.'' @ [nl] @
     ''        '' @ [nl] @
     ''        Return the response in this exact JSON format:'' @ [nl] @
     ''        {'' @ [nl] @
     ''            "new_situation": "Description of the new situation after the choice",'' @ [nl] @
     ''            "alterations": ["List of specific changes to the timeline"],'' @ [nl] @
     ''            "is_ending": false'' @ [nl] @
     ''        }'' @ [nl] @
     ''        '' @ [nl] @
     ''        Set "is_ending" to true if this choice leads to a natural conclusion of the scenario.'' @ [nl] @
     ''        ''\<close>

text \<open>
  \<^verbatim>\<open>[choice['description'] for choice in choices]\<close>: the first subscript that raises ends
  the comprehension.
\<close>

fun descriptions :: "json list \<Rightarrow> error + json list" where
  "descriptions [] = Inr []"
| "descriptions (choice # choices) =
     (case py_getitem choice ''description'' of
        Inl e \<Rightarrow> Inl e
      | Inr d \<Rightarrow>
          (case descriptions choices of Inl e \<Rightarrow> Inl e | Inr ds \<Rightarrow> Inr (d # ds)))"

text \<open>\<^verbatim>\<open>xs[-3:]\<close>\<close>

definition last3 :: "'a list \<Rightarrow> 'a list" where
  "last3 xs = drop (length xs - 3) xs"

definition build_choice_generation_prompt :: "pylib \<Rightarrow> GameState \<Rightarrow> error + string" where
  "build_choice_generation_prompt lib state =
     (case descriptions (last3 (choices_made state)) of
        Inl e \<Rightarrow> Inl e
      | Inr ds \<Rightarrow>
          Inr (choice_generation_text (name (scenario state))
                 (py_str lib (current_situation state)) (py_str lib (JArr ds))))"

definition build_consequence_prompt :: "pylib \<Rightarrow> GameState \<Rightarrow> json \<Rightarrow> error + string" where
  "build_consequence_prompt lib state choice =
     (case py_getitem choice ''description'' of
        Inl e \<Rightarrow> Inl e
      | Inr d \<Rightarrow>
          Inr (consequence_text (name (scenario state))
                 (py_str lib (current_situation state)) (py_str lib d)))"

text \<open>
  \<^verbatim>\<open>get_available_choices\<close>: the prompt is built before the \<^verbatim>\<open>try\<close>, so an exception
  of the prompt reaches the caller; every exception of the client gives the fallback
  choices. The session is not changed; the requests sent are returned.
\<close>

definition get_available_choices ::
  "pylib \<Rightarrow> service \<Rightarrow> GameEngine \<Rightarrow> request list \<Rightarrow> (error + json) \<times> request list" where
  "get_available_choices lib api eng sent =
     (case current_state eng of
        None \<Rightarrow> (Inr (JArr []), sent)
      | Some state \<Rightarrow>
          if is_complete state then (Inr (JArr []), sent)
          else
            (case build_choice_generation_prompt lib state of
               Inl e \<Rightarrow> (Inl e, sent)
             | Inr prompt \<Rightarrow>
                 (case generate_choices api sent prompt of
                    (Inl e, sent') \<Rightarrow> (Inr get_fallback_choices, sent')
                  | (Inr response, sent') \<Rightarrow> (Inr (parse_ai_choices lib response), sent'))))"

text \<open>
  \<^verbatim>\<open>next((choice for choice in choices if choice['id'] == choice_id), None)\<close>: the first
  element whose \<^verbatim>\<open>id\<close> equals the identifier, a \<^verbatim>\<open>str\<close>; an element that cannot be
  subscripted, or has no \<^verbatim>\<open>id\<close>, raises when the search reaches it.
\<close>

fun first_match :: "json list \<Rightarrow> string \<Rightarrow> error + json option" where
  "first_match [] choice_id = Inr None"
| "first_match (choice # choices) choice_id =
     (case py_getitem choice ''id'' of
        Inl e \<Rightarrow> Inl e
      | Inr v \<Rightarrow> if v = JStr choice_id then Inr (Some choice) else first_match choices choice_id)"

definition find_choice :: "json \<Rightarrow> string \<Rightarrow> error + json option" where
  "find_choice available_choices choice_id =
     (case py_iter available_choices of
        Inl e \<Rightarrow> Inl e
      | Inr choices \<Rightarrow> first_match choices choice_id)"

text \<open>
  The body of the \<^verbatim>\<open>try\<close> of \<^verbatim>\<open>make_choice\<close> after the client has returned: the state
  it leaves and the exception that ended it, if any. The situation is assigned before
  the alterations are read, and \<^verbatim>\<open>extend\<close> raises before it appends anything.
\<close>

definition apply_consequence :: "json \<Rightarrow> GameState \<Rightarrow> error option \<times> GameState" where
  "apply_consequence consequence state =
     (case py_getitem consequence ''new_situation'' of
        Inl e \<Rightarrow> (Some e, state)
      | Inr situation \<Rightarrow>
          (let state1 = state\<lparr>current_situation := situation\<rparr> in
           case dict_get consequence ''alterations'' (JArr []) of
             Inl e \<Rightarrow> (Some e, state1)
           | Inr alterations \<Rightarrow>
               (case py_iter alterations of
                  Inl e \<Rightarrow> (Some e, state1)
                | Inr xs \<Rightarrow>
                    (let state2 =
                       state1\<lparr>timeline_alterations := timeline_alterations state1 @ xs\<rparr> in
                     case dict_get consequence ''is_ending'' (JBool False) of
                       Inl e \<Rightarrow> (Some e, state2)
                     | Inr ending \<Rightarrow>
                         if py_truthy ending then (None, state2\<lparr>is_complete := True\<rparr>)
                         else (None, state2)))))"

text \<open>The handler of that \<^verbatim>\<open>try\<close>: the fallback consequence.\<close>

definition fallback_situation :: "string \<Rightarrow> string" where
  "fallback_situation d =
     ''Your choice to '' @ [sq] @ d @ [sq] @
     '' has created ripple effects through history...''"

definition fallback_consequence :: "pylib \<Rightarrow> json \<Rightarrow> GameState \<Rightarrow> error + GameState" where
  "fallback_consequence lib chosen_option state =
     (case py_getitem chosen_option ''description'' of
        Inl e \<Rightarrow> Inl e
      | Inr d \<Rightarrow> Inr (state\<lparr>current_situation := JStr (fallback_situation (py_str lib d))\<rparr>))"

text \<open>
  \<^verbatim>\<open>make_choice\<close>: the outcome (an exception or the returned boolean), the engine and the
  requests sent. An exception leaves the engine as it was when it was raised.
\<close>

definition make_choice ::
  "pylib \<Rightarrow> service \<Rightarrow> string \<Rightarrow> GameEngine \<Rightarrow> request list \<Rightarrow>
     (error + bool) \<times> GameEngine \<times> request list" where
  "make_choice lib api choice_id eng sent =
     (case current_state eng of
        None \<Rightarrow> (Inr False, eng, sent)
      | Some state \<Rightarrow>
          (case get_available_choices lib api eng sent of
             (Inl e, sent1) \<Rightarrow> (Inl e, eng, sent1)
           | (Inr available_choices, sent1) \<Rightarrow>
               (case find_choice available_choices choice_id of
                  Inl e \<Rightarrow> (Inl e, eng, sent1)
                | Inr None \<Rightarrow> (Inr False, eng, sent1)
                | Inr (Some chosen_option) \<Rightarrow>
                    if \<not> py_truthy chosen_option then (Inr False, eng, sent1)
                    else
                      (let state1 = state\<lparr>choices_made := choices_made state @ [chosen_option]\<rparr> in
                       case build_consequence_prompt lib state1 chosen_option of
                         Inl e \<Rightarrow> (Inl e, eng\<lparr>current_state := Some state1\<rparr>, sent1)
                       | Inr consequence_prompt \<Rightarrow>
                           (let (r, sent2) = generate_consequence lib api sent1 consequence_prompt;
                                (raised, state2) =
                                  (case r of
                                     Inl e \<Rightarrow> (Some e, state1)
                                   | Inr consequence \<Rightarrow> apply_consequence consequence state1)
                            in case raised of
                                 None \<Rightarrow> (Inr True, eng\<lparr>current_state := Some state2\<rparr>, sent2)
                               | Some e \<Rightarrow>
                                   (case fallback_consequence lib chosen_option state2 of
                                      Inl e' \<Rightarrow> (Inl e', eng\<lparr>current_state := Some state2\<rparr>, sent2)
                                    | Inr state3 \<Rightarrow>
                                        (Inr True, eng\<lparr>current_state := Some state3\<rparr>, sent2)))))))"

section \<open>Callers\<close>

text \<open>
  What a caller can do with a session: ask for the choices or make one. A sequence of
  calls is run on the engine and the request trace; the object stays as an exception
  left it.
\<close>

datatype call =
    AvailableChoices
  | MakeChoice string

fun run_call :: "pylib \<Rightarrow> service \<Rightarrow> call \<Rightarrow> GameEngine \<times> request list \<Rightarrow> GameEngine \<times> request list" where
  "run_call lib api AvailableChoices (eng, sent) =
     (eng, snd (get_available_choices lib api eng sent))"
| "run_call lib api (MakeChoice choice_id) (eng, sent) =
     snd (make_choice lib api choice_id eng sent)"

fun run_calls :: "pylib \<Rightarrow> service \<Rightarrow> call list \<Rightarrow> GameEngine \<times> request list \<Rightarrow> GameEngine \<times> request list" where
  "run_calls lib api [] s = s"
| "run_calls lib api (c # cs) s = run_calls lib api cs (run_call lib api c s)"

text \<open>The requests of a trace that ask for choices (the client's short length cap).\<close>

definition choice_requests :: "request list \<Rightarrow> request list" where
  "choice_requests sent = filter (\<lambda>req. max_tokens req = 500) sent"

section \<open>The specification's reading of a choice list\<close>

text \<open>
  The specification's words for what the service is expected to return: a structured
  list of options under key \<^verbatim>\<open>choices\<close>, an option having an identifier, a description
  text and optionally an impact-summary text.
\<close>

fun spec_choice_option :: "json \<Rightarrow> bool" where
  "spec_choice_option (JObj kvs) =
     (case (map_of kvs ''id'', map_of kvs ''description'', map_of kvs ''potential_impact'') of
        (Some (JStr i), Some (JStr d), None) \<Rightarrow> True
      | (Some (JStr i), Some (JStr d), Some (JStr p)) \<Rightarrow> True
      | _ \<Rightarrow> False)"
| "spec_choice_option v = False"

definition spec_interpretable :: "pylib \<Rightarrow> string option \<Rightarrow> bool" where
  "spec_interpretable lib content =
     (case loads lib content of
        Inr (JObj kvs) \<Rightarrow>
          (case map_of kvs ''choices'' of
             Some (JArr options) \<Rightarrow> list_all spec_choice_option options
           | _ \<Rightarrow> False)
      | _ \<Rightarrow> False)"

section \<open>Example inputs\<close>

text \<open>
  \<^verbatim>\<open>json.loads\<close> on the texts of the examples: it agrees with Python's on the texts
  of the table and on texts that do not begin with a JSON value, and is applied to no
  other text. \<^verbatim>\<open>repr\<close> of a string without quotes, backslashes or control characters
  puts it between single quotes.
\<close>

definition choices_text :: string where
  \<open>choices_text =
     ''{"choices": [{"id": "choice_1", "description": "Evacuate the scrolls by sea", '' @
     ''"potential_impact": "The collection survives abroad"}, '' @
     ''{"id": "choice_2", "description": "Fight the fire"}]}''\<close>

definition choices_value :: json where
  "choices_value =
     JObj [(''choices'',
            JArr [JObj [(''id'', JStr ''choice_1''),
                        (''description'', JStr ''Evacuate the scrolls by sea''),
                        (''potential_impact'', JStr ''The collection survives abroad'')],
                  JObj [(''id'', JStr ''choice_2''),
                        (''description'', JStr ''Fight the fire'')]])]"

definition ending_text :: string where
  \<open>ending_text = ''{"new_situation": "X", "alterations": ["A"], "is_ending": true}''\<close>

definition ending_value :: json where
  "ending_value =
     JObj [(''new_situation'', JStr ''X''),
           (''alterations'', JArr [JStr ''A'']),
           (''is_ending'', JBool True)]"

definition no_id_text :: string where
  \<open>no_id_text = ''{"choices": [{"description": "d"}]}''\<close>

definition example_loads :: "string \<Rightarrow> string + json" where
  \<open>example_loads text =
     (if text = ''{}'' then Inr (JObj [])
      else if text = ''{"choices": []}'' then Inr (JObj [(''choices'', JArr [])])
      else if text = choices_text then Inr choices_value
      else if text = ending_text then Inr ending_value
      else if text = no_id_text
        then Inr (JObj [(''choices'', JArr [JObj [(''description'', JStr ''d'')]])])
      else Inl ''Expecting value: line 1 column 1 (char 0)'')\<close>

definition example_lib :: pylib where
  "example_lib = \<lparr>json_loads = example_loads, repr_str = (\<lambda>s. [sq] @ s @ [sq])\<rparr>"

text \<open>A service that cannot be reached, and one that answers each kind of request with a fixed text.\<close>

definition service_down :: service where
  "service_down n req = Raised ''Connection error.''"

definition service_replying :: "string \<Rightarrow> string \<Rightarrow> service" where
  "service_replying choices consequence n req =
     Content (Some (if max_tokens req = 500 then choices else consequence))"

text \<open>A session just started on the first scenario, and the same session once complete.\<close>

definition example_engine :: GameEngine where
  "example_engine = \<lparr>current_state = Some (new_GameState library_alexandria), active = True\<rparr>"

definition complete_engine :: GameEngine where
  "complete_engine =
     \<lparr>current_state = Some ((new_GameState library_alexandria)\<lparr>is_complete := True\<rparr>),
      active = True\<rparr>"

section \<open>The catalog\<close>

lemma scenario_names:
  "name library_alexandria = ''The Library of Alexandria''"
  "name mongol_europe = ''Mongol Invasion of Europe''"
  "name columbus_pacific = ''Columbus Sails West to Asia''"
  "name black_death = ''The Black Death Prevention''"
  "name archduke_survives = ''Archduke Franz Ferdinand Lives''"
  "name lusitania_warning = ''The Lusitania's Final Voyage''"
  "name zimmermann_intercepted = ''The Zimmermann Telegram Plot''"
  "name hitler_art_school = ''The Rejected Artist's Path''"
  "name pearl_harbor_warning = ''The Pearl Harbor Intelligence''"
  "name operation_barbarossa = ''Stalin's Dilemma''"
  "name d_day_weather = ''D-Day: The Weather Decision''"
  by (simp_all add: library_alexandria_def mongol_europe_def columbus_pacific_def
      black_death_def archduke_survives_def lusitania_warning_def zimmermann_intercepted_def
      hitler_art_school_def pearl_harbor_warning_def operation_barbarossa_def
      d_day_weather_def)

text \<open>The display names are pairwise different, so a definition determines its key.\<close>

lemma name_index:
  "map (\<lambda>(k, s). (name s, k)) AVAILABLE_SCENARIOS =
     [(''The Library of Alexandria'', ''library_alexandria''),
      (''Mongol Invasion of Europe'', ''mongol_europe''),
      (''Columbus Sails West to Asia'', ''columbus_pacific''),
      (''The Black Death Prevention'', ''black_death''),
      (''Archduke Franz Ferdinand Lives'', ''archduke_survives''),
      (''The Lusitania's Final Voyage'', ''lusitania_warning''),
      (''The Zimmermann Telegram Plot'', ''zimmermann_intercepted''),
      (''The Rejected Artist's Path'', ''hitler_art_school''),
      (''The Pearl Harbor Intelligence'', ''pearl_harbor_warning''),
      (''Stalin's Dilemma'', ''operation_barbarossa''),
      (''D-Day: The Weather Decision'', ''d_day_weather'')]"
  by (simp add: AVAILABLE_SCENARIOS_def scenario_names)

lemma catalog_cases:
  assumes "(key, d) \<in> set AVAILABLE_SCENARIOS"
  shows "(key, d) = (''library_alexandria'', library_alexandria) \<or>
         (key, d) = (''mongol_europe'', mongol_europe) \<or>
         (key, d) = (''columbus_pacific'', columbus_pacific) \<or>
         (key, d) = (''black_death'', black_death) \<or>
         (key, d) = (''archduke_survives'', archduke_survives) \<or>
         (key, d) = (''lusitania_warning'', lusitania_warning) \<or>
         (key, d) = (''zimmermann_intercepted'', zimmermann_intercepted) \<or>
         (key, d) = (''hitler_art_school'', hitler_art_school) \<or>
         (key, d) = (''pearl_harbor_warning'', pearl_harbor_warning) \<or>
         (key, d) = (''operation_barbarossa'', operation_barbarossa) \<or>
         (key, d) = (''d_day_weather'', d_day_weather)"
  using assms unfolding AVAILABLE_SCENARIOS_def by (simp only: list.set insert_iff empty_iff simp_thms)

lemma key_of_name:
  assumes "(key, d) \<in> set AVAILABLE_SCENARIOS"
  shows "map_of (map (\<lambda>(k, s). (name s, k)) AVAILABLE_SCENARIOS) (name d) = Some key"
  using catalog_cases [OF assms] unfolding name_index
  by (elim disjE) (simp_all add: scenario_names)

lemma catalog_keys_distinct: "distinct (map fst AVAILABLE_SCENARIOS)"
  by (simp add: AVAILABLE_SCENARIOS_def)

text \<open>
  C9. A scenario definition has no identifier field of its own: its identifier is the key
  under which the table \<open>AVAILABLE_SCENARIOS\<close> holds it. For every key of the table,
  \<open>scenarios_get\<close> returns the definition that the table holds under that key; the table
  holds no other definition under the key and holds that definition under no other key.
  For every other string it returns \<open>None\<close>. The lookup is a total function without
  state.
\<close>

theorem scenarios_get_by_key:
  "(key \<in> fst ` set AVAILABLE_SCENARIOS \<longrightarrow>
      (\<exists>d. scenarios_get key = Some d \<and>
           (key, d) \<in> set AVAILABLE_SCENARIOS \<and>
           (\<forall>d'. (key, d') \<in> set AVAILABLE_SCENARIOS \<longrightarrow> d' = d) \<and>
           (\<forall>key'. (key', d) \<in> set AVAILABLE_SCENARIOS \<longrightarrow> key' = key))) \<and>
   (key \<notin> fst ` set AVAILABLE_SCENARIOS \<longrightarrow> scenarios_get key = None)"
proof (intro conjI impI)
  assume "key \<in> fst ` set AVAILABLE_SCENARIOS"
  then have "scenarios_get key \<noteq> None"
    unfolding scenarios_get_def by (simp add: map_of_eq_None_iff)
  then obtain d where d: "scenarios_get key = Some d"
    by blast
  then have held: "(key, d) \<in> set AVAILABLE_SCENARIOS"
    unfolding scenarios_get_def by (rule map_of_SomeD)
  have one_definition: "d' = d" if "(key, d') \<in> set AVAILABLE_SCENARIOS" for d'
  proof -
    from catalog_keys_distinct that have "map_of AVAILABLE_SCENARIOS key = Some d'"
      by (rule map_of_is_SomeI)
    with d show ?thesis
      by (simp add: scenarios_get_def)
  qed
  have one_key: "key' = key" if "(key', d) \<in> set AVAILABLE_SCENARIOS" for key'
    using key_of_name [OF that] key_of_name [OF held] by simp
  from d held one_definition one_key
  show "\<exists>d. scenarios_get key = Some d \<and>
           (key, d) \<in> set AVAILABLE_SCENARIOS \<and>
           (\<forall>d'. (key, d') \<in> set AVAILABLE_SCENARIOS \<longrightarrow> d' = d) \<and>
           (\<forall>key'. (key', d) \<in> set AVAILABLE_SCENARIOS \<longrightarrow> key' = key)"
    by blast
next
  assume "key \<notin> fst ` set AVAILABLE_SCENARIOS"
  then show "scenarios_get key = None"
    unfolding scenarios_get_def by (simp add: map_of_eq_None_iff)
qed

theorem scenarios_get_by_key_witness:
  "''mongol_europe'' \<in> fst ` set AVAILABLE_SCENARIOS \<and>
   scenarios_get ''mongol_europe'' = Some mongol_europe \<and>
   (''mongol_europe'', mongol_europe) \<in> set AVAILABLE_SCENARIOS \<and>
   (''library_alexandria'', mongol_europe) \<notin> set AVAILABLE_SCENARIOS \<and>
   ''atlantis'' \<notin> fst ` set AVAILABLE_SCENARIOS \<and>
   scenarios_get ''atlantis'' = None"
proof -
  have in_cat: "''mongol_europe'' \<in> fst ` set AVAILABLE_SCENARIOS"
    by (simp add: AVAILABLE_SCENARIOS_def)
  have not_in_cat: "''atlantis'' \<notin> fst ` set AVAILABLE_SCENARIOS"
    by (simp add: AVAILABLE_SCENARIOS_def)
  have entry: "(''mongol_europe'', mongol_europe) \<in> set AVAILABLE_SCENARIOS"
    by (simp add: AVAILABLE_SCENARIOS_def)
  from scenarios_get_by_key [of "''mongol_europe''"] in_cat
  obtain d where d: "scenarios_get ''mongol_europe'' = Some d"
    and one_definition: "\<forall>d'. (''mongol_europe'', d') \<in> set AVAILABLE_SCENARIOS \<longrightarrow> d' = d"
    and one_key: "\<forall>key'. (key', d) \<in> set AVAILABLE_SCENARIOS \<longrightarrow> key' = ''mongol_europe''"
    by blast
  from one_definition entry have "mongol_europe = d"
    by blast
  with d one_key have found: "scenarios_get ''mongol_europe'' = Some mongol_europe"
    and only: "\<forall>key'. (key', mongol_europe) \<in> set AVAILABLE_SCENARIOS \<longrightarrow>
      key' = ''mongol_europe''"
    by (simp_all only:)
  have "''library_alexandria'' \<noteq> ''mongol_europe''"
    by simp
  with only have other: "(''library_alexandria'', mongol_europe) \<notin> set AVAILABLE_SCENARIOS"
    by blast
  from scenarios_get_by_key [of "''atlantis''"] not_in_cat
  have none: "scenarios_get ''atlantis'' = None"
    by blast
  from in_cat found entry other not_in_cat none show ?thesis
    by (intro conjI)
qed

section \<open>Starting a scenario\<close>

text \<open>
  C7. Starting a scenario whose identifier is not in the catalog returns false and leaves
  the engine as it was, so no session is created. Starting one whose identifier is in
  the catalog returns true; the engine is then active, its session holds the scenario,
  the scenario's initial situation as current situation, an empty choice history (the
  decision count reported is 0), an empty timeline log and a completion flag that is
  false.
\<close>

theorem start_scenario_session:
  "(scenario_name \<notin> fst ` set AVAILABLE_SCENARIOS \<longrightarrow>
      start_scenario scenario_name eng = (False, eng)) \<and>
   (\<forall>sc. scenarios_get scenario_name = Some sc \<longrightarrow>
      (\<exists>eng'. start_scenario scenario_name eng = (True, eng') \<and>
         is_active eng' \<and>
         current_state eng' =
           Some \<lparr>scenario = sc, current_situation = JStr (initial_situation sc),
                 choices_made = [], timeline_alterations = [], is_complete = False\<rparr> \<and>
         map_option view_choices_made (get_current_state eng') = Some 0))"
proof (intro conjI impI allI)
  assume "scenario_name \<notin> fst ` set AVAILABLE_SCENARIOS"
  then have "scenarios_get scenario_name = None"
    unfolding scenarios_get_def by (simp add: map_of_eq_None_iff)
  then show "start_scenario scenario_name eng = (False, eng)"
    by (simp add: start_scenario_def)
next
  fix sc
  assume "scenarios_get scenario_name = Some sc"
  then show "\<exists>eng'. start_scenario scenario_name eng = (True, eng') \<and>
         is_active eng' \<and>
         current_state eng' =
           Some \<lparr>scenario = sc, current_situation = JStr (initial_situation sc),
                 choices_made = [], timeline_alterations = [], is_complete = False\<rparr> \<and>
         map_option view_choices_made (get_current_state eng') = Some 0"
    by (simp add: start_scenario_def is_active_def new_GameState_def get_current_state_def)
qed

theorem start_scenario_session_witness:
  "''atlantis'' \<notin> fst ` set AVAILABLE_SCENARIOS \<and>
   start_scenario ''atlantis'' new_GameEngine = (False, new_GameEngine) \<and>
   scenarios_get ''library_alexandria'' = Some library_alexandria \<and>
   start_scenario ''library_alexandria'' new_GameEngine = (True, example_engine) \<and>
   is_active example_engine"
proof -
  have not_in_cat: "''atlantis'' \<notin> fst ` set AVAILABLE_SCENARIOS"
    by (simp add: AVAILABLE_SCENARIOS_def)
  have found: "scenarios_get ''library_alexandria'' = Some library_alexandria"
    by (simp add: scenarios_get_def AVAILABLE_SCENARIOS_def)
  from start_scenario_session [of "''atlantis''" new_GameEngine] not_in_cat
  have a: "start_scenario ''atlantis'' new_GameEngine = (False, new_GameEngine)"
    by blast
  from start_scenario_session [of "''library_alexandria''" new_GameEngine] found
  obtain eng' where e: "start_scenario ''library_alexandria'' new_GameEngine = (True, eng')"
    and act: "is_active eng'"
    by blast
  have "start_scenario ''library_alexandria'' new_GameEngine = (True, example_engine)"
    by (simp add: start_scenario_def found example_engine_def new_GameEngine_def)
  with e act have "is_active example_engine"
    by simp
  with not_in_cat a found
    \<open>start_scenario ''library_alexandria'' new_GameEngine = (True, example_engine)\<close>
  show ?thesis
    by (intro conjI)
qed

section \<open>Asking for the choices\<close>

lemma get_available_choices_no_session:
  assumes "current_state eng = None"
  shows "get_available_choices lib api eng sent = (Inr (JArr []), sent)"
  using assms by (simp add: get_available_choices_def)

lemma get_available_choices_complete:
  assumes "current_state eng = Some st" and "is_complete st"
  shows "get_available_choices lib api eng sent = (Inr (JArr []), sent)"
  using assms by (simp add: get_available_choices_def)

lemma get_available_choices_active:
  assumes "current_state eng = Some st" and "\<not> is_complete st"
    and "build_choice_generation_prompt lib st = Inr prompt"
  shows "get_available_choices lib api eng sent =
           (Inr (case api (length sent) (choices_request prompt) of
                   Raised m \<Rightarrow> get_fallback_choices
                 | Content c \<Rightarrow> parse_ai_choices lib c),
            sent @ [choices_request prompt])"
  using assms
  by (simp add: get_available_choices_def generate_choices_def Let_def split: completion.split)

lemma parse_ai_choices_object:
  assumes "loads lib c = Inr (JObj kvs)"
  shows "parse_ai_choices lib c = (case map_of kvs ''choices'' of None \<Rightarrow> JArr [] | Some v \<Rightarrow> v)"
  using assms by (simp add: parse_ai_choices_def split: option.split)

lemma parse_ai_choices_no_object:
  assumes "\<forall>kvs. loads lib c \<noteq> Inr (JObj kvs)"
  shows "parse_ai_choices lib c = get_fallback_choices"
proof (cases "loads lib c")
  case (Inl m)
  then show ?thesis by (simp add: parse_ai_choices_def)
next
  case (Inr data)
  with assms have "\<forall>kvs. data \<noteq> JObj kvs" by simp
  then have "dict_get data ''choices'' (JArr []) = Inl AttributeError"
    by (cases data) simp_all
  with Inr show ?thesis by (simp add: parse_ai_choices_def)
qed

lemma fallback_choices_not_empty: "get_fallback_choices \<noteq> JArr []"
  by (simp add: get_fallback_choices_def)

lemma build_prompt_no_history:
  assumes "choices_made st = []"
  shows "build_choice_generation_prompt lib st =
           Inr (choice_generation_text (name (scenario st))
                  (py_str lib (current_situation st)) (py_str lib (JArr [])))"
  using assms by (simp add: build_choice_generation_prompt_def last3_def)

section \<open>Making a choice\<close>

lemma first_match_Some:
  assumes "first_match xs choice_id = Inr (Some opt)"
  shows "opt \<in> set xs \<and> (\<exists>kvs. opt = JObj kvs \<and> map_of kvs ''id'' = Some (JStr choice_id))"
  using assms
proof (induction xs)
  case Nil
  then show ?case by simp
next
  case (Cons x xs)
  show ?case
  proof (cases "py_getitem x ''id''")
    case (Inl e)
    with Cons.prems show ?thesis by simp
  next
    case (Inr v)
    show ?thesis
    proof (cases "v = JStr choice_id")
      case True
      with Inr Cons.prems have "opt = x" by simp
      moreover from Inr True have "\<exists>kvs. x = JObj kvs \<and> map_of kvs ''id'' = Some (JStr choice_id)"
        by (cases x) (simp_all split: option.splits)
      ultimately show ?thesis by simp
    next
      case False
      with Inr Cons.prems have "first_match xs choice_id = Inr (Some opt)" by simp
      with Cons.IH show ?thesis by simp
    qed
  qed
qed

lemma find_choice_Some:
  assumes "find_choice opts choice_id = Inr (Some opt)"
  shows "\<exists>kvs. opt = JObj kvs \<and> map_of kvs ''id'' = Some (JStr choice_id)"
proof (cases "py_iter opts")
  case (Inl e)
  with assms show ?thesis by (simp add: find_choice_def)
next
  case (Inr xs)
  with assms have "first_match xs choice_id = Inr (Some opt)" by (simp add: find_choice_def)
  then show ?thesis using first_match_Some by blast
qed

lemma find_choice_truthy:
  assumes "find_choice opts choice_id = Inr (Some opt)"
  shows "py_truthy opt"
proof -
  from find_choice_Some [OF assms] obtain kvs
    where "opt = JObj kvs" and "map_of kvs ''id'' = Some (JStr choice_id)" by blast
  then show ?thesis by (cases kvs) simp_all
qed

lemma find_choice_empty: "find_choice (JArr []) choice_id = Inr None"
  by (simp add: find_choice_def)

lemma make_choice_no_session:
  assumes "current_state eng = None"
  shows "make_choice lib api choice_id eng sent = (Inr False, eng, sent)"
  using assms by (simp add: make_choice_def)

lemma make_choice_not_found:
  assumes "current_state eng = Some st"
    and "get_available_choices lib api eng sent = (Inr opts, sent1)"
    and "find_choice opts choice_id = Inr None"
  shows "make_choice lib api choice_id eng sent = (Inr False, eng, sent1)"
  using assms by (simp add: make_choice_def)

text \<open>
  C6. Once the completion flag of a session is true, asking for the choices returns the
  empty list and sends no request, making a choice returns false and leaves the engine
  and the request trace as they were, and so does every sequence of such calls: the flag
  stays true, no choice-generation request is issued and the session is not changed.
\<close>

theorem complete_session_is_final:
  assumes "current_state eng = Some st" and "is_complete st"
  shows "get_available_choices lib api eng sent = (Inr (JArr []), sent) \<and>
         make_choice lib api choice_id eng sent = (Inr False, eng, sent) \<and>
         run_calls lib api calls (eng, sent) = (eng, sent)"
proof -
  have choices: "get_available_choices lib api eng sent = (Inr (JArr []), sent)"
    using assms by (rule get_available_choices_complete)
  have choice: "make_choice lib api c eng sent = (Inr False, eng, sent)" for c
    using assms(1) choices find_choice_empty by (rule make_choice_not_found)
  have step: "run_call lib api c (eng, sent) = (eng, sent)" for c
    by (cases c) (simp_all add: choices choice)
  have "run_calls lib api calls (eng, sent) = (eng, sent)"
    by (induction calls) (simp_all add: step)
  with choices choice show ?thesis by simp
qed

theorem complete_session_is_final_witness:
  "current_state complete_engine =
     Some ((new_GameState library_alexandria)\<lparr>is_complete := True\<rparr>) \<and>
   is_complete ((new_GameState library_alexandria)\<lparr>is_complete := True\<rparr>) \<and>
   get_available_choices example_lib (service_replying choices_text ending_text)
     complete_engine [] = (Inr (JArr []), []) \<and>
   make_choice example_lib (service_replying choices_text ending_text) ''choice_1''
     complete_engine [] = (Inr False, complete_engine, []) \<and>
   run_calls example_lib (service_replying choices_text ending_text)
     [AvailableChoices, MakeChoice ''choice_1'', AvailableChoices] (complete_engine, []) =
     (complete_engine, [])"
proof -
  have session: "current_state complete_engine =
      Some ((new_GameState library_alexandria)\<lparr>is_complete := True\<rparr>)"
    by (simp add: complete_engine_def)
  have flag: "is_complete ((new_GameState library_alexandria)\<lparr>is_complete := True\<rparr>)"
    by simp
  from session flag complete_session_is_final [OF session flag] show ?thesis
    by (intro conjI) blast+
qed

lemma make_choice_search_raises:
  assumes "current_state eng = Some st"
    and "get_available_choices lib api eng sent = (Inr opts, sent1)"
    and "find_choice opts choice_id = Inl e"
  shows "make_choice lib api choice_id eng sent = (Inl e, eng, sent1)"
  using assms by (simp add: make_choice_def)

lemma first_match_other_ids:
  assumes "\<forall>x\<in>set xs. \<exists>kvs v. x = JObj kvs \<and> map_of kvs ''id'' = Some v \<and> v \<noteq> JStr choice_id"
  shows "first_match xs choice_id = Inr None"
  using assms by (induction xs) auto

text \<open>
  C5, as the code has it. Without a session \<open>make_choice\<close> returns false and changes
  nothing. With a session, when the choices it computes are a list of objects that each
  have an \<^verbatim>\<open>id\<close> and no \<^verbatim>\<open>id\<close> equals the identifier (the empty list of a complete
  session included), it returns false and the engine, hence the situation, the history,
  the timeline log and the completion flag, is exactly as before the call.
\<close>

theorem make_choice_without_match:
  "(current_state eng = None \<longrightarrow>
      make_choice lib api choice_id eng sent = (Inr False, eng, sent)) \<and>
   (current_state eng \<noteq> None \<and>
    get_available_choices lib api eng sent = (Inr (JArr options), sent1) \<and>
    (\<forall>x\<in>set options. \<exists>kvs v. x = JObj kvs \<and> map_of kvs ''id'' = Some v \<and>
        v \<noteq> JStr choice_id) \<longrightarrow>
      make_choice lib api choice_id eng sent = (Inr False, eng, sent1))"
proof (intro conjI impI)
  assume "current_state eng = None"
  then show "make_choice lib api choice_id eng sent = (Inr False, eng, sent)"
    by (rule make_choice_no_session)
next
  assume a: "current_state eng \<noteq> None \<and>
    get_available_choices lib api eng sent = (Inr (JArr options), sent1) \<and>
    (\<forall>x\<in>set options. \<exists>kvs v. x = JObj kvs \<and> map_of kvs ''id'' = Some v \<and>
        v \<noteq> JStr choice_id)"
  then obtain st where st: "current_state eng = Some st"
    by blast
  from a have "first_match options choice_id = Inr None"
    using first_match_other_ids by blast
  then have "find_choice (JArr options) choice_id = Inr None"
    by (simp add: find_choice_def)
  with st a show "make_choice lib api choice_id eng sent = (Inr False, eng, sent1)"
    using make_choice_not_found by blast
qed

section \<open>The example session\<close>

lemma fresh_session_choices:
  assumes "current_state eng = Some st" and "\<not> is_complete st" and "choices_made st = []"
  shows "\<exists>prompt. build_choice_generation_prompt lib st = Inr prompt \<and>
           get_available_choices lib api eng sent =
             (Inr (case api (length sent) (choices_request prompt) of
                     Raised m \<Rightarrow> get_fallback_choices
                   | Content c \<Rightarrow> parse_ai_choices lib c),
              sent @ [choices_request prompt])"
  using get_available_choices_active [OF assms(1,2) build_prompt_no_history [OF assms(3)]]
    build_prompt_no_history [OF assms(3)]
  by blast

lemma example_session:
  "current_state example_engine = Some (new_GameState library_alexandria)"
  "\<not> is_complete (new_GameState library_alexandria)"
  "choices_made (new_GameState library_alexandria) = []"
  by (simp_all add: example_engine_def new_GameState_def)

lemma example_engine_active: "is_active example_engine"
  by (simp add: is_active_def example_engine_def new_GameState_def)

lemma service_down_choices:
  "fst (get_available_choices lib service_down example_engine []) = Inr get_fallback_choices"
proof -
  from fresh_session_choices [OF example_session, of lib service_down "[]"]
  obtain prompt where
    "get_available_choices lib service_down example_engine [] =
       (Inr (case service_down (length ([] :: request list)) (choices_request prompt) of
               Raised m \<Rightarrow> get_fallback_choices
             | Content c \<Rightarrow> parse_ai_choices lib c),
        [] @ [choices_request prompt])"
    by blast
  then show ?thesis by (simp add: service_down_def)
qed

lemma service_replying_choices:
  "fst (get_available_choices lib (service_replying text other) example_engine []) =
     Inr (parse_ai_choices lib (Some text))"
proof -
  from fresh_session_choices [OF example_session, of lib "service_replying text other" "[]"]
  obtain prompt where
    "get_available_choices lib (service_replying text other) example_engine [] =
       (Inr (case service_replying text other (length ([] :: request list))
                    (choices_request prompt) of
               Raised m \<Rightarrow> get_fallback_choices
             | Content c \<Rightarrow> parse_ai_choices lib c),
        [] @ [choices_request prompt])"
    by blast
  then show ?thesis by (simp add: service_replying_def choices_request_def)
qed

lemma example_loads_texts:
  "loads example_lib (Some ''{}'') = Inr (JObj [])"
  \<open>loads example_lib (Some ''{"choices": []}'') = Inr (JObj [(''choices'', JArr [])])\<close>
  "loads example_lib (Some ''not json'') = Inl ''Expecting value: line 1 column 1 (char 0)''"
  "loads example_lib (Some no_id_text) =
     Inr (JObj [(''choices'', JArr [JObj [(''description'', JStr ''d'')]])])"
  by (simp_all add: loads_def example_lib_def example_loads_def choices_text_def
      ending_text_def no_id_text_def)

theorem make_choice_without_match_witness:
  "current_state new_GameEngine = None \<and>
   make_choice example_lib service_down ''wait'' new_GameEngine [] =
     (Inr False, new_GameEngine, []) \<and>
   current_state example_engine \<noteq> None \<and>
   fst (get_available_choices example_lib service_down example_engine []) =
     Inr get_fallback_choices \<and>
   fst (make_choice example_lib service_down ''retreat'' example_engine []) = Inr False \<and>
   fst (snd (make_choice example_lib service_down ''retreat'' example_engine [])) =
     example_engine"
proof -
  have none: "current_state new_GameEngine = None"
    by (simp add: new_GameEngine_def)
  have some: "current_state example_engine \<noteq> None"
    by (simp add: example_session)
  obtain options where options: "get_fallback_choices = JArr options"
    and ids: "\<forall>x\<in>set options. \<exists>kvs v. x = JObj kvs \<and> map_of kvs ''id'' = Some v \<and>
        v \<noteq> JStr ''retreat''"
    by (simp add: get_fallback_choices_def)
  obtain sent1 where choices:
    "get_available_choices example_lib service_down example_engine [] =
       (Inr (JArr options), sent1)"
    using service_down_choices [of example_lib] options
    by (cases "get_available_choices example_lib service_down example_engine []") simp
  from make_choice_without_match
    [of new_GameEngine example_lib service_down "''wait''" "[]" options sent1] none
  have a: "make_choice example_lib service_down ''wait'' new_GameEngine [] =
      (Inr False, new_GameEngine, [])"
    by blast
  from make_choice_without_match
    [of example_engine example_lib service_down "''retreat''" "[]" options sent1]
    some choices ids
  have b: "make_choice example_lib service_down ''retreat'' example_engine [] =
      (Inr False, example_engine, sent1)"
    by blast
  have b1: "fst (make_choice example_lib service_down ''retreat'' example_engine []) = Inr False"
    and b2: "fst (snd (make_choice example_lib service_down ''retreat'' example_engine [])) =
      example_engine"
    by (simp_all only: b fst_conv snd_conv)
  from none a some service_down_choices [of example_lib] b1 b2 show ?thesis
    by (intro conjI)
qed

text \<open>
  C5 as stated fails: when the service's only option has no \<^verbatim>\<open>id\<close>, no option matches the
  identifier, and \<open>make_choice\<close> raises \<^verbatim>\<open>KeyError\<close> instead of returning false.
\<close>

theorem make_choice_without_match_counterexample:
  "is_active example_engine \<and>
   fst (get_available_choices example_lib (service_replying no_id_text '''') example_engine []) =
     Inr (JArr [JObj [(''description'', JStr ''d'')]]) \<and>
   fst (make_choice example_lib (service_replying no_id_text '''') ''x'' example_engine []) =
     Inl (KeyError ''id'')"
proof -
  have parsed: "parse_ai_choices example_lib (Some no_id_text) =
      JArr [JObj [(''description'', JStr ''d'')]]"
    by (simp add: parse_ai_choices_object [OF example_loads_texts(4)])
  then have computed:
    "fst (get_available_choices example_lib (service_replying no_id_text '''')
       example_engine []) = Inr (JArr [JObj [(''description'', JStr ''d'')]])"
    by (simp add: service_replying_choices)
  then obtain sent1 where choices:
    "get_available_choices example_lib (service_replying no_id_text '''') example_engine [] =
       (Inr (JArr [JObj [(''description'', JStr ''d'')]]), sent1)"
    by (cases "get_available_choices example_lib (service_replying no_id_text '''')
          example_engine []") simp
  have "find_choice (JArr [JObj [(''description'', JStr ''d'')]]) ''x'' = Inl (KeyError ''id'')"
    by (simp add: find_choice_def)
  with example_session(1) choices
  have "make_choice example_lib (service_replying no_id_text '''') ''x'' example_engine [] =
      (Inl (KeyError ''id''), example_engine, sent1)"
    by (rule make_choice_search_raises)
  then have "fst (make_choice example_lib (service_replying no_id_text '''') ''x''
      example_engine []) = Inl (KeyError ''id'')"
    by simp
  with example_engine_active computed show ?thesis
    by (intro conjI)
qed

section \<open>When the fallback choices are returned\<close>

text \<open>
  C1, as the code has it. On an active session whose choice prompt is built, the three
  fallback choices are returned when the client raises, and when the reply is not a JSON
  object for \<^verbatim>\<open>json.loads\<close> (no text, text that does not parse, or a value that is not an
  object). When the reply is a JSON object, the value under \<^verbatim>\<open>choices\<close> is returned as it
  is, and the empty list when the key is absent. No exception reaches the caller in any
  of these cases, and one request has been sent.
\<close>

theorem available_choices_fallback:
  assumes "current_state eng = Some st" and "\<not> is_complete st"
    and "build_choice_generation_prompt lib st = Inr prompt"
  shows "(api (length sent) (choices_request prompt) = Raised m \<or>
          (api (length sent) (choices_request prompt) = Content c \<and>
           (\<forall>kvs. loads lib c \<noteq> Inr (JObj kvs))) \<longrightarrow>
            get_available_choices lib api eng sent =
              (Inr get_fallback_choices, sent @ [choices_request prompt])) \<and>
         (api (length sent) (choices_request prompt) = Content c \<and>
          loads lib c = Inr (JObj kvs) \<longrightarrow>
            get_available_choices lib api eng sent =
              (Inr (case map_of kvs ''choices'' of None \<Rightarrow> JArr [] | Some v \<Rightarrow> v),
               sent @ [choices_request prompt]))"
proof (intro conjI impI)
  assume "api (length sent) (choices_request prompt) = Raised m \<or>
          (api (length sent) (choices_request prompt) = Content c \<and>
           (\<forall>kvs. loads lib c \<noteq> Inr (JObj kvs)))"
  then show "get_available_choices lib api eng sent =
      (Inr get_fallback_choices, sent @ [choices_request prompt])"
  proof
    assume "api (length sent) (choices_request prompt) = Raised m"
    then show ?thesis
      by (simp add: get_available_choices_active [OF assms])
  next
    assume "api (length sent) (choices_request prompt) = Content c \<and>
           (\<forall>kvs. loads lib c \<noteq> Inr (JObj kvs))"
    then show ?thesis
      by (simp add: get_available_choices_active [OF assms] parse_ai_choices_no_object)
  qed
next
  assume "api (length sent) (choices_request prompt) = Content c \<and>
          loads lib c = Inr (JObj kvs)"
  then show "get_available_choices lib api eng sent =
      (Inr (case map_of kvs ''choices'' of None \<Rightarrow> JArr [] | Some v \<Rightarrow> v),
       sent @ [choices_request prompt])"
    by (simp add: get_available_choices_active [OF assms] parse_ai_choices_object)
qed

theorem available_choices_fallback_witness:
  "current_state example_engine = Some (new_GameState library_alexandria) \<and>
   \<not> is_complete (new_GameState library_alexandria) \<and>
   fst (get_available_choices example_lib service_down example_engine []) =
     Inr get_fallback_choices \<and>
   loads example_lib (Some ''not json'') = Inl ''Expecting value: line 1 column 1 (char 0)'' \<and>
   fst (get_available_choices example_lib (service_replying ''not json'' '''')
          example_engine []) = Inr get_fallback_choices \<and>
   fst (get_available_choices example_lib (service_replying ''{}'' '''')
          example_engine []) = Inr (JArr [])"
proof -
  obtain prompt where prompt:
    "build_choice_generation_prompt example_lib (new_GameState library_alexandria) = Inr prompt"
    using build_prompt_no_history [OF example_session(3)] by blast
  note fallback = available_choices_fallback [OF example_session(1,2) prompt]
  have down: "service_down (length ([] :: request list)) (choices_request prompt) =
      Raised ''Connection error.''"
    by (simp add: service_down_def)
  have garbage: "service_replying ''not json'' '''' (length ([] :: request list))
      (choices_request prompt) = Content (Some ''not json'')"
    by (simp add: service_replying_def choices_request_def)
  have no_object: "\<forall>kvs. loads example_lib (Some ''not json'') \<noteq> Inr (JObj kvs)"
    by (simp add: example_loads_texts)
  have empty: "service_replying ''{}'' '''' (length ([] :: request list))
      (choices_request prompt) = Content (Some ''{}'')"
    by (simp add: service_replying_def choices_request_def)
  from fallback [of service_down "[]" "''Connection error.''"] down
  have a: "get_available_choices example_lib service_down example_engine [] =
      (Inr get_fallback_choices, [] @ [choices_request prompt])"
    by blast
  from fallback [of "service_replying ''not json'' ''''" "[]" _ "Some ''not json''"] garbage no_object
  have b: "get_available_choices example_lib (service_replying ''not json'' '''')
      example_engine [] = (Inr get_fallback_choices, [] @ [choices_request prompt])"
    by blast
  from fallback [of "service_replying ''{}'' ''''" "[]" _ "Some ''{}''" "[]"] empty
    example_loads_texts(1)
  have c: "get_available_choices example_lib (service_replying ''{}'' '''')
      example_engine [] =
        (Inr (case map_of ([] :: (string \<times> json) list) ''choices'' of
                None \<Rightarrow> JArr [] | Some v \<Rightarrow> v),
         [] @ [choices_request prompt])"
    by blast
  have a': "fst (get_available_choices example_lib service_down example_engine []) =
      Inr get_fallback_choices"
    by (simp only: a fst_conv)
  have b': "fst (get_available_choices example_lib (service_replying ''not json'' '''')
      example_engine []) = Inr get_fallback_choices"
    by (simp only: b fst_conv)
  have c': "fst (get_available_choices example_lib (service_replying ''{}'' '''')
      example_engine []) = Inr (JArr [])"
    by (simp add: c)
  from example_session(1,2) a' example_loads_texts(3) b' c' show ?thesis
    by (intro conjI)
qed

text \<open>
  C1 as stated fails: the text \<^verbatim>\<open>{}\<close> holds no list of options under \<^verbatim>\<open>choices\<close>, and on an
  active session the engine returns the empty list for it, not the fallback choices.
\<close>

theorem available_choices_fallback_counterexample:
  "is_active example_engine \<and>
   \<not> spec_interpretable example_lib (Some ''{}'') \<and>
   fst (get_available_choices example_lib (service_replying ''{}'' '''') example_engine []) =
     Inr (JArr []) \<and>
   JArr [] \<noteq> get_fallback_choices"
proof -
  have "\<not> spec_interpretable example_lib (Some ''{}'')"
    by (simp add: spec_interpretable_def example_loads_texts)
  moreover have "parse_ai_choices example_lib (Some ''{}'') = JArr []"
    by (simp add: parse_ai_choices_object [OF example_loads_texts(1)])
  then have "fst (get_available_choices example_lib (service_replying ''{}'' '''')
      example_engine []) = Inr (JArr [])"
    by (simp add: service_replying_choices)
  moreover have "JArr [] \<noteq> get_fallback_choices"
    using fallback_choices_not_empty by simp
  ultimately show ?thesis
    using example_engine_active by (intro conjI)
qed

section \<open>When no choices are returned\<close>

text \<open>
  C4, as the code has it. Without a session, and on a complete session, the empty list
  is returned and no request is sent. On an active session whose choice prompt is built,
  the empty list is returned exactly when the reply is a JSON object that has no key
  \<^verbatim>\<open>choices\<close> or holds the empty list under it; the fallback choices are not empty.
\<close>

theorem available_choices_empty:
  "(current_state eng = None \<or> (\<exists>s. current_state eng = Some s \<and> is_complete s) \<longrightarrow>
      get_available_choices lib api eng sent = (Inr (JArr []), sent)) \<and>
   (current_state eng = Some st \<and> \<not> is_complete st \<and>
    build_choice_generation_prompt lib st = Inr prompt \<longrightarrow>
      (fst (get_available_choices lib api eng sent) = Inr (JArr []) \<longleftrightarrow>
         (\<exists>c kvs. api (length sent) (choices_request prompt) = Content c \<and>
            loads lib c = Inr (JObj kvs) \<and>
            (map_of kvs ''choices'' = None \<or> map_of kvs ''choices'' = Some (JArr [])))))"
proof (intro conjI impI)
  assume "current_state eng = None \<or> (\<exists>s. current_state eng = Some s \<and> is_complete s)"
  then show "get_available_choices lib api eng sent = (Inr (JArr []), sent)"
    using get_available_choices_no_session get_available_choices_complete by blast
next
  assume active: "current_state eng = Some st \<and> \<not> is_complete st \<and>
    build_choice_generation_prompt lib st = Inr prompt"
  then have result: "fst (get_available_choices lib api eng sent) =
      Inr (case api (length sent) (choices_request prompt) of
             Raised m \<Rightarrow> get_fallback_choices
           | Content c \<Rightarrow> parse_ai_choices lib c)"
    by (simp add: get_available_choices_active)
  show "fst (get_available_choices lib api eng sent) = Inr (JArr []) \<longleftrightarrow>
         (\<exists>c kvs. api (length sent) (choices_request prompt) = Content c \<and>
            loads lib c = Inr (JObj kvs) \<and>
            (map_of kvs ''choices'' = None \<or> map_of kvs ''choices'' = Some (JArr [])))"
  proof (cases "api (length sent) (choices_request prompt)")
    case (Raised m)
    with result show ?thesis
      by (simp add: fallback_choices_not_empty)
  next
    case (Content c)
    show ?thesis
    proof (cases "\<exists>kvs. loads lib c = Inr (JObj kvs)")
      case True
      then obtain kvs where kvs: "loads lib c = Inr (JObj kvs)" by blast
      with result Content show ?thesis
        by (auto simp: parse_ai_choices_object split: option.splits)
    next
      case False
      then have "parse_ai_choices lib c = get_fallback_choices"
        by (simp add: parse_ai_choices_no_object)
      with result Content False show ?thesis
        by (simp add: fallback_choices_not_empty)
    qed
  qed
qed

theorem available_choices_empty_witness:
  "current_state new_GameEngine = None \<and>
   get_available_choices example_lib service_down new_GameEngine [] = (Inr (JArr []), []) \<and>
   current_state example_engine = Some (new_GameState library_alexandria) \<and>
   \<not> is_complete (new_GameState library_alexandria) \<and>
   fst (get_available_choices example_lib service_down example_engine []) \<noteq> Inr (JArr [])"
proof -
  have none: "current_state new_GameEngine = None"
    by (simp add: new_GameEngine_def)
  from available_choices_empty [of new_GameEngine example_lib service_down "[]"] none
  have a: "get_available_choices example_lib service_down new_GameEngine [] =
      (Inr (JArr []), [])"
    by blast
  obtain prompt where prompt:
    "build_choice_generation_prompt example_lib (new_GameState library_alexandria) = Inr prompt"
    using build_prompt_no_history [OF example_session(3)] by blast
  have down: "\<forall>c. service_down (length ([] :: request list)) (choices_request prompt) \<noteq>
      Content c"
    by (simp add: service_down_def)
  from available_choices_empty
    [of example_engine example_lib service_down "[]" "new_GameState library_alexandria" prompt]
    example_session(1,2) prompt down
  have b: "fst (get_available_choices example_lib service_down example_engine []) \<noteq>
      Inr (JArr [])"
    by blast
  from none a example_session(1,2) b show ?thesis
    by (intro conjI)
qed

text \<open>
  C4 as stated fails: on an active session the service may answer with an empty list of
  choices, and the engine returns it.
\<close>

theorem available_choices_empty_counterexample:
  \<open>is_active example_engine \<and>
   fst (get_available_choices example_lib (service_replying ''{"choices": []}'' '''')
          example_engine []) = Inr (JArr [])\<close>
proof -
  have \<open>parse_ai_choices example_lib (Some ''{"choices": []}'') = JArr []\<close>
    by (simp add: parse_ai_choices_object [OF example_loads_texts(2)])
  then have \<open>fst (get_available_choices example_lib (service_replying ''{"choices": []}'' '''')
      example_engine []) = Inr (JArr [])\<close>
    by (simp add: service_replying_choices)
  with example_engine_active show ?thesis
    by (intro conjI)
qed

section \<open>What a matched choice does\<close>

lemma py_str_text: "py_str lib (JStr t) = t"
  by (simp add: py_str_def)

lemma first_match_found:
  assumes "\<forall>x\<in>set before. \<exists>kvs' v. x = JObj kvs' \<and> map_of kvs' ''id'' = Some v \<and>
      v \<noteq> JStr choice_id"
    and "map_of kvs ''id'' = Some (JStr choice_id)"
  shows "first_match (before @ JObj kvs # after) choice_id = Inr (Some (JObj kvs))"
  using assms by (induction before) auto

lemma first_match_split:
  assumes "first_match xs choice_id = Inr (Some opt)"
  shows "\<exists>before after kvs. xs = before @ opt # after \<and> opt = JObj kvs \<and>
           map_of kvs ''id'' = Some (JStr choice_id) \<and>
           (\<forall>x\<in>set before. \<exists>kvs' v. x = JObj kvs' \<and> map_of kvs' ''id'' = Some v \<and>
              v \<noteq> JStr choice_id)"
  using assms
proof (induction xs)
  case Nil
  then show ?case by simp
next
  case (Cons x xs)
  from Cons.prems obtain v where v: "py_getitem x ''id'' = Inr v"
    by (cases "py_getitem x ''id''") simp_all
  then obtain kx where x: "x = JObj kx" and kx: "map_of kx ''id'' = Some v"
    by (cases x) (simp_all split: option.splits)
  show ?case
  proof (cases "v = JStr choice_id")
    case True
    with v Cons.prems have "opt = x" by simp
    with x kx True have "x # xs = [] @ opt # xs \<and> opt = JObj kx \<and>
        map_of kx ''id'' = Some (JStr choice_id) \<and>
        (\<forall>y\<in>set ([] :: json list). \<exists>kvs' w. y = JObj kvs' \<and> map_of kvs' ''id'' = Some w \<and>
           w \<noteq> JStr choice_id)"
      by simp
    then show ?thesis by blast
  next
    case False
    with v Cons.prems have "first_match xs choice_id = Inr (Some opt)" by simp
    from Cons.IH [OF this] obtain before after kvs where
      split: "xs = before @ opt # after" "opt = JObj kvs"
        "map_of kvs ''id'' = Some (JStr choice_id)"
        "\<forall>y\<in>set before. \<exists>kvs' w. y = JObj kvs' \<and> map_of kvs' ''id'' = Some w \<and>
           w \<noteq> JStr choice_id"
      by blast
    from split(4) x kx False
    have "\<forall>y\<in>set (x # before). \<exists>kvs' w. y = JObj kvs' \<and> map_of kvs' ''id'' = Some w \<and>
        w \<noteq> JStr choice_id"
      by simp
    moreover from split(1) have "x # xs = (x # before) @ opt # after"
      by simp
    ultimately show ?thesis using split(2,3) by blast
  qed
qed

lemma build_consequence_prompt_described:
  assumes "map_of kvs ''description'' = Some d"
  shows "build_consequence_prompt lib st (JObj kvs) =
           Inr (consequence_text (name (scenario st)) (py_str lib (current_situation st))
                  (py_str lib d))"
  using assms by (simp add: build_consequence_prompt_def)

lemma fallback_consequence_described:
  assumes "map_of kvs ''description'' = Some d"
  shows "fallback_consequence lib (JObj kvs) st =
           Inr (st\<lparr>current_situation := JStr (fallback_situation (py_str lib d))\<rparr>)"
  using assms by (simp add: fallback_consequence_def)

text \<open>The run of \<open>make_choice\<close> once an option is found and the consequence prompt is built.\<close>

lemma make_choice_found:
  assumes "current_state eng = Some st"
    and "get_available_choices lib api eng sent = (Inr opts, sent1)"
    and "find_choice opts choice_id = Inr (Some opt)"
    and "build_consequence_prompt lib (st\<lparr>choices_made := choices_made st @ [opt]\<rparr>) opt =
           Inr prompt"
    and "generate_consequence lib api sent1 prompt = (r, sent2)"
    and "(case r of
            Inl e \<Rightarrow> (Some e, st\<lparr>choices_made := choices_made st @ [opt]\<rparr>)
          | Inr consequence \<Rightarrow>
              apply_consequence consequence (st\<lparr>choices_made := choices_made st @ [opt]\<rparr>)) =
           (raised, st2)"
  shows "make_choice lib api choice_id eng sent =
           (case raised of
              None \<Rightarrow> (Inr True, eng\<lparr>current_state := Some st2\<rparr>, sent2)
            | Some e \<Rightarrow>
                (case fallback_consequence lib opt st2 of
                   Inl e' \<Rightarrow> (Inl e', eng\<lparr>current_state := Some st2\<rparr>, sent2)
                 | Inr st3 \<Rightarrow> (Inr True, eng\<lparr>current_state := Some st3\<rparr>, sent2)))"
  using assms find_choice_truthy [OF assms(3)]
  by (simp add: make_choice_def Let_def)

lemma generate_consequence_trace:
  "snd (generate_consequence lib api sent prompt) = sent @ [consequence_request prompt]"
  by (simp add: generate_consequence_def Let_def split: completion.split sum.split)

lemma generate_consequence_fails:
  assumes "api (length sent) (consequence_request prompt) = Raised m \<or>
           (\<exists>c. api (length sent) (consequence_request prompt) = Content c \<and>
                loads lib c = Inl m)"
  shows "generate_consequence lib api sent prompt =
           (Inl (Exception (''AI consequence generation failed: '' @ m)),
            sent @ [consequence_request prompt])"
  using assms by (auto simp: generate_consequence_def Let_def)

lemma generate_consequence_returns:
  assumes "api (length sent) (consequence_request prompt) = Content c"
    and "loads lib c = Inr v"
  shows "generate_consequence lib api sent prompt = (Inr v, sent @ [consequence_request prompt])"
  using assms by (simp add: generate_consequence_def Let_def)

lemma apply_consequence_history:
  assumes "apply_consequence consequence st = (raised, st')"
  shows "choices_made st' = choices_made st"
  using assms
  by (auto simp: apply_consequence_def Let_def split: sum.splits if_splits)

lemma fallback_consequence_history:
  assumes "fallback_consequence lib opt st = Inr st'"
  shows "choices_made st' = choices_made st"
  using assms by (auto simp: fallback_consequence_def split: sum.splits)

lemma apply_consequence_ending:
  assumes "map_of rec ''new_situation'' = Some (JStr x)"
    and "map_of rec ''alterations'' = Some (JArr [JStr a])"
    and "map_of rec ''is_ending'' = Some (JBool True)"
  shows "apply_consequence (JObj rec) st =
           (None, st\<lparr>current_situation := JStr x,
                      timeline_alterations := timeline_alterations st @ [JStr a],
                      is_complete := True\<rparr>)"
  using assms by (simp add: apply_consequence_def Let_def)

lemma find_choice_found:
  assumes "\<forall>x\<in>set before. \<exists>kvs' v. x = JObj kvs' \<and> map_of kvs' ''id'' = Some v \<and>
      v \<noteq> JStr choice_id"
    and "map_of kvs ''id'' = Some (JStr choice_id)"
  shows "find_choice (JArr (before @ JObj kvs # after)) choice_id = Inr (Some (JObj kvs))"
  using first_match_found [OF assms] by (simp add: find_choice_def)

text \<open>
  C2. On an active session, let the choices computed inside \<open>make_choice\<close> be a list in
  which the first option whose \<^verbatim>\<open>id\<close> equals the identifier has the description \<open>d\<close> (the
  options before it have other ids). If the consequence request then fails, because the
  service call raises or because \<^verbatim>\<open>json.loads\<close> raises on the reply, \<open>make_choice\<close> returns
  true and raises nothing; the situation becomes the fallback sentence around the
  description (a description that is a text is written as it is), the timeline log is
  unchanged, the completion flag stays false, and the option has been appended to the
  history.
\<close>

theorem make_choice_fallback:
  assumes "current_state eng = Some st" and "\<not> is_complete st"
    and "get_available_choices lib api eng sent = (Inr (JArr options), sent1)"
    and "options = before @ JObj kvs # after"
    and "\<forall>x\<in>set before. \<exists>kvs' v. x = JObj kvs' \<and> map_of kvs' ''id'' = Some v \<and>
           v \<noteq> JStr choice_id"
    and "map_of kvs ''id'' = Some (JStr choice_id)"
    and "map_of kvs ''description'' = Some d"
    and "prompt = consequence_text (name (scenario st)) (py_str lib (current_situation st))
           (py_str lib d)"
    and "api (length sent1) (consequence_request prompt) = Raised m \<or>
         (\<exists>c. api (length sent1) (consequence_request prompt) = Content c \<and>
              loads lib c = Inl m)"
  shows "\<exists>st'. make_choice lib api choice_id eng sent =
             (Inr True, eng\<lparr>current_state := Some st'\<rparr>, sent1 @ [consequence_request prompt]) \<and>
           current_situation st' =
             JStr (''Your choice to '' @ [sq] @ py_str lib d @ [sq] @
                   '' has created ripple effects through history...'') \<and>
           (\<forall>t. d = JStr t \<longrightarrow> py_str lib d = t) \<and>
           timeline_alterations st' = timeline_alterations st \<and>
           \<not> is_complete st' \<and>
           choices_made st' = choices_made st @ [JObj kvs] \<and>
           scenario st' = scenario st"
proof -
  let ?st1 = "st\<lparr>choices_made := choices_made st @ [JObj kvs]\<rparr>"
  let ?st' = "?st1\<lparr>current_situation := JStr (fallback_situation (py_str lib d))\<rparr>"
  have found: "find_choice (JArr options) choice_id = Inr (Some (JObj kvs))"
    unfolding assms(4) using assms(5,6) by (rule find_choice_found)
  have built: "build_consequence_prompt lib ?st1 (JObj kvs) = Inr prompt"
    by (simp add: build_consequence_prompt_described [OF assms(7)] assms(8))
  have failed: "generate_consequence lib api sent1 prompt =
      (Inl (Exception (''AI consequence generation failed: '' @ m)),
       sent1 @ [consequence_request prompt])"
    using assms(9) by (rule generate_consequence_fails)
  have "make_choice lib api choice_id eng sent =
      (Inr True, eng\<lparr>current_state := Some ?st'\<rparr>, sent1 @ [consequence_request prompt])"
    using make_choice_found [OF assms(1) assms(3) found built failed, of "Some _" ?st1]
    by (simp add: fallback_consequence_described [OF assms(7)])
  moreover have "current_situation ?st' =
      JStr (''Your choice to '' @ [sq] @ py_str lib d @ [sq] @
            '' has created ripple effects through history...'')"
    by (simp add: fallback_situation_def)
  moreover have "\<forall>t. d = JStr t \<longrightarrow> py_str lib d = t"
    by (simp add: py_str_text)
  moreover have "timeline_alterations ?st' = timeline_alterations st"
    and "\<not> is_complete ?st'"
    and "choices_made ?st' = choices_made st @ [JObj kvs]"
    and "scenario ?st' = scenario st"
    using assms(2) by simp_all
  ultimately show ?thesis by blast
qed

text \<open>
  C3. On an active session, with the matched option as in C2, if the reply to the
  consequence request parses to a record holding \<^verbatim>\<open>new_situation\<close> \<open>x\<close>, \<^verbatim>\<open>alterations\<close>
  \<open>[a]\<close> and \<^verbatim>\<open>is_ending\<close> true, then \<open>make_choice\<close> returns true, the situation is \<open>x\<close>,
  \<open>a\<close> is appended at the end of the timeline log, the session is complete, and the
  option has been appended to the history.
\<close>

theorem make_choice_ending:
  assumes "current_state eng = Some st" and "\<not> is_complete st"
    and "get_available_choices lib api eng sent = (Inr (JArr options), sent1)"
    and "options = before @ JObj kvs # after"
    and "\<forall>x\<in>set before. \<exists>kvs' v. x = JObj kvs' \<and> map_of kvs' ''id'' = Some v \<and>
           v \<noteq> JStr choice_id"
    and "map_of kvs ''id'' = Some (JStr choice_id)"
    and "map_of kvs ''description'' = Some d"
    and "prompt = consequence_text (name (scenario st)) (py_str lib (current_situation st))
           (py_str lib d)"
    and "api (length sent1) (consequence_request prompt) = Content c"
    and "loads lib c = Inr (JObj rec)"
    and "map_of rec ''new_situation'' = Some (JStr x)"
    and "map_of rec ''alterations'' = Some (JArr [JStr a])"
    and "map_of rec ''is_ending'' = Some (JBool True)"
  shows "\<exists>st'. make_choice lib api choice_id eng sent =
             (Inr True, eng\<lparr>current_state := Some st'\<rparr>, sent1 @ [consequence_request prompt]) \<and>
           current_situation st' = JStr x \<and>
           timeline_alterations st' = timeline_alterations st @ [JStr a] \<and>
           is_complete st' \<and>
           choices_made st' = choices_made st @ [JObj kvs] \<and>
           scenario st' = scenario st"
proof -
  let ?st1 = "st\<lparr>choices_made := choices_made st @ [JObj kvs]\<rparr>"
  let ?st' = "?st1\<lparr>current_situation := JStr x,
                    timeline_alterations := timeline_alterations ?st1 @ [JStr a],
                    is_complete := True\<rparr>"
  have found: "find_choice (JArr options) choice_id = Inr (Some (JObj kvs))"
    unfolding assms(4) using assms(5,6) by (rule find_choice_found)
  have built: "build_consequence_prompt lib ?st1 (JObj kvs) = Inr prompt"
    by (simp add: build_consequence_prompt_described [OF assms(7)] assms(8))
  have returned: "generate_consequence lib api sent1 prompt =
      (Inr (JObj rec), sent1 @ [consequence_request prompt])"
    using assms(9,10) by (rule generate_consequence_returns)
  have applied: "(case Inr (JObj rec) :: error + json of
                    Inl e \<Rightarrow> (Some e, ?st1)
                  | Inr consequence \<Rightarrow> apply_consequence consequence ?st1) = (None, ?st')"
    by (simp add: apply_consequence_ending [OF assms(11,12,13)])
  have "make_choice lib api choice_id eng sent =
      (Inr True, eng\<lparr>current_state := Some ?st'\<rparr>, sent1 @ [consequence_request prompt])"
    using make_choice_found [OF assms(1) assms(3) found built returned applied]
    by simp
  moreover have "current_situation ?st' = JStr x"
    and "timeline_alterations ?st' = timeline_alterations st @ [JStr a]"
    and "is_complete ?st'"
    and "choices_made ?st' = choices_made st @ [JObj kvs]"
    and "scenario ?st' = scenario st"
    by simp_all
  ultimately show ?thesis by blast
qed

lemma find_choice_split:
  assumes "find_choice opts choice_id = Inr (Some opt)"
  shows "\<exists>before after kvs. opts = JArr (before @ opt # after) \<and> opt = JObj kvs \<and>
           map_of kvs ''id'' = Some (JStr choice_id) \<and>
           (\<forall>x\<in>set before. \<exists>kvs' v. x = JObj kvs' \<and> map_of kvs' ''id'' = Some v \<and>
              v \<noteq> JStr choice_id)"
proof -
  from assms obtain xs where xs: "py_iter opts = Inr xs"
    and search: "first_match xs choice_id = Inr (Some opt)"
    by (cases "py_iter opts") (simp_all add: find_choice_def)
  from first_match_split [OF search] obtain before after kvs where
    split: "xs = before @ opt # after" "opt = JObj kvs"
      "map_of kvs ''id'' = Some (JStr choice_id)"
      "\<forall>x\<in>set before. \<exists>kvs' v. x = JObj kvs' \<and> map_of kvs' ''id'' = Some v \<and>
         v \<noteq> JStr choice_id"
    by blast
  from split(1,2) have member: "JObj kvs \<in> set xs"
    by simp
  have "opts = JArr xs"
  proof (cases opts)
    case (JArr ys)
    with xs show ?thesis by simp
  next
    case (JStr s)
    with xs member show ?thesis by auto
  next
    case (JObj ps)
    with xs member show ?thesis by auto
  qed (use xs in simp_all)
  with split show ?thesis by blast
qed

text \<open>Every way in which \<open>make_choice\<close> ends.\<close>

lemma make_choice_outcome:
  assumes "make_choice lib api choice_id eng sent = (out, eng', sent')"
  shows "(out = Inr False \<and> eng' = eng) \<or>
         (\<exists>e. out = Inl e) \<or>
         (out = Inr True \<and>
          (\<exists>st st' opts sent1 opt.
             current_state eng = Some st \<and> current_state eng' = Some st' \<and>
             get_available_choices lib api eng sent = (Inr opts, sent1) \<and>
             find_choice opts choice_id = Inr (Some opt) \<and>
             choices_made st' = choices_made st @ [opt]))"
proof (cases "current_state eng")
  case None
  with assms show ?thesis by (auto simp: make_choice_def)
next
  case (Some st)
  obtain r1 sent1 where computed: "get_available_choices lib api eng sent = (r1, sent1)"
    by (cases "get_available_choices lib api eng sent")
  show ?thesis
  proof (cases r1)
    case (Inl e)
    with assms Some computed show ?thesis by (auto simp: make_choice_def)
  next
    case (Inr opts)
    note opts = computed [unfolded Inr]
    show ?thesis
    proof (cases "find_choice opts choice_id")
      case (Inl e)
      with assms Some opts show ?thesis by (auto simp: make_choice_def)
    next
      case found: (Inr found)
      show ?thesis
      proof (cases found)
        case None
        with assms Some opts found show ?thesis by (auto simp: make_choice_def)
      next
        case (Some opt)
        note search = found [unfolded Some]
        let ?st1 = "st\<lparr>choices_made := choices_made st @ [opt]\<rparr>"
        show ?thesis
        proof (cases "build_consequence_prompt lib ?st1 opt")
          case (Inl e)
          with assms \<open>current_state eng = Some st\<close> opts search find_choice_truthy [OF search]
          show ?thesis by (auto simp: make_choice_def Let_def)
        next
          case (Inr prompt)
          obtain r sent2 where call: "generate_consequence lib api sent1 prompt = (r, sent2)"
            by (cases "generate_consequence lib api sent1 prompt")
          obtain raised st2 where body:
            "(case r of
                Inl e \<Rightarrow> (Some e, ?st1)
              | Inr consequence \<Rightarrow> apply_consequence consequence ?st1) = (raised, st2)"
            by (cases "case r of
                Inl e \<Rightarrow> (Some e, ?st1)
              | Inr consequence \<Rightarrow> apply_consequence consequence ?st1")
          have history2: "choices_made st2 = choices_made st @ [opt]"
          proof (cases r)
            case (Inl e)
            with body show ?thesis by auto
          next
            case (Inr consequence)
            with body have "apply_consequence consequence ?st1 = (raised, st2)" by simp
            from apply_consequence_history [OF this] show ?thesis by simp
          qed
          note run = make_choice_found [OF \<open>current_state eng = Some st\<close> opts search Inr call body]
          show ?thesis
          proof (cases raised)
            case None
            with run assms have "out = Inr True" and "eng' = eng\<lparr>current_state := Some st2\<rparr>"
              by simp_all
            with \<open>current_state eng = Some st\<close> opts search history2 show ?thesis
              by simp
          next
            case (Some e)
            show ?thesis
            proof (cases "fallback_consequence lib opt st2")
              case (Inl e')
              with run Some assms show ?thesis by auto
            next
              case (Inr st3)
              with run Some assms have "out = Inr True"
                and "eng' = eng\<lparr>current_state := Some st3\<rparr>"
                by simp_all
              moreover from fallback_consequence_history [OF Inr] history2
              have "choices_made st3 = choices_made st @ [opt]" by simp
              ultimately show ?thesis
                using \<open>current_state eng = Some st\<close> opts search by simp
            qed
          qed
        qed
      qed
    qed
  qed
qed

text \<open>
  C10. Whenever \<open>make_choice\<close> returns true, on the success path and on the fallback path
  alike, the history afterwards is the history before with exactly one entry appended:
  the first option of the computed list whose \<^verbatim>\<open>id\<close> equals the identifier. Whenever it
  returns false, the engine, and so the history, is unchanged.
\<close>

theorem make_choice_history:
  "(make_choice lib api choice_id eng sent = (Inr True, eng', sent') \<longrightarrow>
      (\<exists>st st' sent1 before opt after kvs.
         current_state eng = Some st \<and> current_state eng' = Some st' \<and>
         get_available_choices lib api eng sent = (Inr (JArr (before @ opt # after)), sent1) \<and>
         opt = JObj kvs \<and> map_of kvs ''id'' = Some (JStr choice_id) \<and>
         (\<forall>x\<in>set before. \<exists>kvs' v. x = JObj kvs' \<and> map_of kvs' ''id'' = Some v \<and>
            v \<noteq> JStr choice_id) \<and>
         choices_made st' = choices_made st @ [opt] \<and>
         length (choices_made st') = length (choices_made st) + 1)) \<and>
   (make_choice lib api choice_id eng sent = (Inr False, eng', sent') \<longrightarrow> eng' = eng)"
proof (intro conjI impI)
  assume "make_choice lib api choice_id eng sent = (Inr True, eng', sent')"
  from make_choice_outcome [OF this] obtain st st' opts sent1 opt where
    run: "current_state eng = Some st" "current_state eng' = Some st'"
      "get_available_choices lib api eng sent = (Inr opts, sent1)"
      "find_choice opts choice_id = Inr (Some opt)"
      "choices_made st' = choices_made st @ [opt]"
    by auto
  from find_choice_split [OF run(4)] obtain before after kvs where
    "opts = JArr (before @ opt # after)" "opt = JObj kvs"
    "map_of kvs ''id'' = Some (JStr choice_id)"
    "\<forall>x\<in>set before. \<exists>kvs' v. x = JObj kvs' \<and> map_of kvs' ''id'' = Some v \<and>
       v \<noteq> JStr choice_id"
    by blast
  with run show "\<exists>st st' sent1 before opt after kvs.
         current_state eng = Some st \<and> current_state eng' = Some st' \<and>
         get_available_choices lib api eng sent = (Inr (JArr (before @ opt # after)), sent1) \<and>
         opt = JObj kvs \<and> map_of kvs ''id'' = Some (JStr choice_id) \<and>
         (\<forall>x\<in>set before. \<exists>kvs' v. x = JObj kvs' \<and> map_of kvs' ''id'' = Some v \<and>
            v \<noteq> JStr choice_id) \<and>
         choices_made st' = choices_made st @ [opt] \<and>
         length (choices_made st') = length (choices_made st) + 1"
    by auto
next
  assume "make_choice lib api choice_id eng sent = (Inr False, eng', sent')"
  from make_choice_outcome [OF this] show "eng' = eng"
    by auto
qed

section \<open>The errors of the client\<close>


section \<open>The examples run\<close>

lemma example_loads_records:
  "loads example_lib (Some choices_text) = Inr choices_value"
  "loads example_lib (Some ending_text) = Inr ending_value"
  by (simp_all add: loads_def example_lib_def example_loads_def choices_text_def
      ending_text_def no_id_text_def)

lemma example_choices:
  "parse_ai_choices example_lib (Some choices_text) =
     JArr [JObj [(''id'', JStr ''choice_1''),
                 (''description'', JStr ''Evacuate the scrolls by sea''),
                 (''potential_impact'', JStr ''The collection survives abroad'')],
           JObj [(''id'', JStr ''choice_2''),
                 (''description'', JStr ''Fight the fire'')]]"
  by (simp add: parse_ai_choices_object [OF example_loads_records(1) [unfolded choices_value_def]])

lemma service_replying_consequence:
  "service_replying text reply n (consequence_request prompt) = Content (Some reply)"
  by (simp add: service_replying_def consequence_request_def)

lemma service_down_wait:
  "fst (make_choice lib service_down ''wait'' example_engine []) = Inr True"
proof -
  let ?st = "new_GameState library_alexandria"
  let ?kvs = "[(''id'', JStr ''wait''),
               (''description'', JStr ''Wait and gather more information''),
               (''potential_impact'', JStr ''Safer approach but may miss opportunities'')]"
  let ?st1 = "?st\<lparr>choices_made := choices_made ?st @ [JObj ?kvs]\<rparr>"
  obtain sent1 where choices:
    "get_available_choices lib service_down example_engine [] =
       (Inr get_fallback_choices, sent1)"
    using service_down_choices [of lib]
    by (cases "get_available_choices lib service_down example_engine []") simp
  have found: "find_choice get_fallback_choices ''wait'' = Inr (Some (JObj ?kvs))"
    by (simp add: find_choice_def get_fallback_choices_def)
  have described: "map_of ?kvs ''description'' = Some (JStr ''Wait and gather more information'')"
    by simp
  note built = build_consequence_prompt_described [OF described, of lib ?st1]
  have failed: "generate_consequence lib service_down sent1
      (consequence_text (name (scenario ?st1)) (py_str lib (current_situation ?st1))
         (py_str lib (JStr ''Wait and gather more information''))) =
      (Inl (Exception (''AI consequence generation failed: '' @ ''Connection error.'')),
       sent1 @ [consequence_request
         (consequence_text (name (scenario ?st1)) (py_str lib (current_situation ?st1))
            (py_str lib (JStr ''Wait and gather more information'')))])"
    by (rule generate_consequence_fails) (simp add: service_down_def)
  from make_choice_found [OF example_session(1) choices found built failed, of "Some _" ?st1]
  show ?thesis
    by (simp add: fallback_consequence_described [OF described])
qed

lemma service_down_retreat:
  "fst (make_choice lib service_down ''retreat'' example_engine []) = Inr False"
proof -
  obtain sent1 where choices:
    "get_available_choices lib service_down example_engine [] =
       (Inr get_fallback_choices, sent1)"
    using service_down_choices [of lib]
    by (cases "get_available_choices lib service_down example_engine []") simp
  have "find_choice get_fallback_choices ''retreat'' = Inr None"
    by (simp add: find_choice_def get_fallback_choices_def)
  from make_choice_not_found [OF example_session(1) choices this] show ?thesis
    by simp
qed

theorem make_choice_fallback_witness:
  "current_state example_engine = Some (new_GameState library_alexandria) \<and>
   \<not> is_complete (new_GameState library_alexandria) \<and>
   fst (get_available_choices example_lib (service_replying choices_text ''not json'')
          example_engine []) =
     Inr (JArr [JObj [(''id'', JStr ''choice_1''),
                      (''description'', JStr ''Evacuate the scrolls by sea''),
                      (''potential_impact'', JStr ''The collection survives abroad'')],
                JObj [(''id'', JStr ''choice_2''),
                      (''description'', JStr ''Fight the fire'')]]) \<and>
   loads example_lib (Some ''not json'') = Inl ''Expecting value: line 1 column 1 (char 0)'' \<and>
   fst (make_choice example_lib (service_replying choices_text ''not json'') ''choice_2''
          example_engine []) = Inr True \<and>
   map_option current_situation
     (current_state (fst (snd (make_choice example_lib
        (service_replying choices_text ''not json'') ''choice_2'' example_engine [])))) =
     Some (JStr ''Your choice to 'Fight the fire' has created ripple effects through history...'') \<and>
   map_option timeline_alterations
     (current_state (fst (snd (make_choice example_lib
        (service_replying choices_text ''not json'') ''choice_2'' example_engine [])))) =
     Some [] \<and>
   map_option is_complete
     (current_state (fst (snd (make_choice example_lib
        (service_replying choices_text ''not json'') ''choice_2'' example_engine [])))) =
     Some False"
proof -
  let ?api = "service_replying choices_text ''not json''"
  let ?st = "new_GameState library_alexandria"
  let ?first = "JObj [(''id'', JStr ''choice_1''),
                      (''description'', JStr ''Evacuate the scrolls by sea''),
                      (''potential_impact'', JStr ''The collection survives abroad'')]"
  let ?kvs = "[(''id'', JStr ''choice_2''), (''description'', JStr ''Fight the fire'')]"
  have computed: "fst (get_available_choices example_lib ?api example_engine []) =
      Inr (JArr [?first, JObj ?kvs])"
    by (simp add: service_replying_choices example_choices)
  then obtain sent1 where choices:
    "get_available_choices example_lib ?api example_engine [] =
       (Inr (JArr [?first, JObj ?kvs]), sent1)"
    by (cases "get_available_choices example_lib ?api example_engine []") simp
  define prompt where "prompt = consequence_text (name (scenario ?st))
      (py_str example_lib (current_situation ?st)) (py_str example_lib (JStr ''Fight the fire''))"
  have split: "[?first, JObj ?kvs] = [?first] @ JObj ?kvs # []"
    by simp
  have others: "\<forall>x\<in>set [?first]. \<exists>kvs' v. x = JObj kvs' \<and> map_of kvs' ''id'' = Some v \<and>
      v \<noteq> JStr ''choice_2''"
    by simp
  have ident: "map_of ?kvs ''id'' = Some (JStr ''choice_2'')"
    by simp
  have described: "map_of ?kvs ''description'' = Some (JStr ''Fight the fire'')"
    by simp
  have failure: "?api (length sent1) (consequence_request prompt) =
        Raised ''Expecting value: line 1 column 1 (char 0)'' \<or>
      (\<exists>c. ?api (length sent1) (consequence_request prompt) = Content c \<and>
           loads example_lib c = Inl ''Expecting value: line 1 column 1 (char 0)'')"
    using service_replying_consequence [of choices_text "''not json''" "length sent1" prompt]
      example_loads_texts(3)
    by blast
  from make_choice_fallback
    [OF example_session(1,2) choices split others ident described prompt_def failure]
  obtain st' where
    run: "make_choice example_lib ?api ''choice_2'' example_engine [] =
      (Inr True, example_engine\<lparr>current_state := Some st'\<rparr>,
       sent1 @ [consequence_request prompt])"
    and situation: "current_situation st' =
      JStr (''Your choice to '' @ [sq] @ py_str example_lib (JStr ''Fight the fire'') @ [sq] @
            '' has created ripple effects through history...'')"
    and log: "timeline_alterations st' = timeline_alterations ?st"
    and flag: "\<not> is_complete st'"
    by blast
  have returned: "fst (make_choice example_lib ?api ''choice_2'' example_engine []) = Inr True"
    by (simp add: run)
  have session: "current_state (fst (snd (make_choice example_lib ?api ''choice_2''
      example_engine []))) = Some st'"
    by (simp add: run)
  have a: "map_option current_situation (current_state (fst (snd (make_choice example_lib ?api
      ''choice_2'' example_engine [])))) =
      Some (JStr ''Your choice to 'Fight the fire' has created ripple effects through history...'')"
    by (simp add: session situation py_str_text)
  have b: "map_option timeline_alterations (current_state (fst (snd (make_choice example_lib
      ?api ''choice_2'' example_engine [])))) = Some []"
    by (simp add: session log new_GameState_def)
  have c: "map_option is_complete (current_state (fst (snd (make_choice example_lib ?api
      ''choice_2'' example_engine [])))) = Some False"
    by (simp add: session flag)
  from example_session(1,2) computed example_loads_texts(3) returned a b c show ?thesis
    by (intro conjI)
qed

theorem make_choice_ending_witness:
  "current_state example_engine = Some (new_GameState library_alexandria) \<and>
   \<not> is_complete (new_GameState library_alexandria) \<and>
   loads example_lib (Some ending_text) =
     Inr (JObj [(''new_situation'', JStr ''X''), (''alterations'', JArr [JStr ''A'']),
                (''is_ending'', JBool True)]) \<and>
   fst (make_choice example_lib (service_replying choices_text ending_text) ''choice_1''
          example_engine []) = Inr True \<and>
   map_option current_situation
     (current_state (fst (snd (make_choice example_lib
        (service_replying choices_text ending_text) ''choice_1'' example_engine [])))) =
     Some (JStr ''X'') \<and>
   map_option timeline_alterations
     (current_state (fst (snd (make_choice example_lib
        (service_replying choices_text ending_text) ''choice_1'' example_engine [])))) =
     Some [JStr ''A''] \<and>
   map_option is_complete
     (current_state (fst (snd (make_choice example_lib
        (service_replying choices_text ending_text) ''choice_1'' example_engine [])))) =
     Some True"
proof -
  let ?api = "service_replying choices_text ending_text"
  let ?st = "new_GameState library_alexandria"
  let ?kvs = "[(''id'', JStr ''choice_1''),
               (''description'', JStr ''Evacuate the scrolls by sea''),
               (''potential_impact'', JStr ''The collection survives abroad'')]"
  let ?second = "JObj [(''id'', JStr ''choice_2''), (''description'', JStr ''Fight the fire'')]"
  let ?rec = "[(''new_situation'', JStr ''X''), (''alterations'', JArr [JStr ''A'']),
               (''is_ending'', JBool True)]"
  have "fst (get_available_choices example_lib ?api example_engine []) =
      Inr (JArr [JObj ?kvs, ?second])"
    by (simp add: service_replying_choices example_choices)
  then obtain sent1 where choices:
    "get_available_choices example_lib ?api example_engine [] =
       (Inr (JArr [JObj ?kvs, ?second]), sent1)"
    by (cases "get_available_choices example_lib ?api example_engine []") simp
  define prompt where "prompt = consequence_text (name (scenario ?st))
      (py_str example_lib (current_situation ?st))
      (py_str example_lib (JStr ''Evacuate the scrolls by sea''))"
  have split: "[JObj ?kvs, ?second] = [] @ JObj ?kvs # [?second]"
    by simp
  have others: "\<forall>x\<in>set ([] :: json list). \<exists>kvs' v. x = JObj kvs' \<and>
      map_of kvs' ''id'' = Some v \<and> v \<noteq> JStr ''choice_1''"
    by simp
  have ident: "map_of ?kvs ''id'' = Some (JStr ''choice_1'')"
    by simp
  have described: "map_of ?kvs ''description'' = Some (JStr ''Evacuate the scrolls by sea'')"
    by simp
  have reply: "?api (length sent1) (consequence_request prompt) = Content (Some ending_text)"
    by (rule service_replying_consequence)
  have parsed: "loads example_lib (Some ending_text) = Inr (JObj ?rec)"
    by (simp add: example_loads_records(2) ending_value_def)
  have f1: "map_of ?rec ''new_situation'' = Some (JStr ''X'')"
    and f2: "map_of ?rec ''alterations'' = Some (JArr [JStr ''A''])"
    and f3: "map_of ?rec ''is_ending'' = Some (JBool True)"
    by simp_all
  from make_choice_ending
    [OF example_session(1,2) choices split others ident described prompt_def reply parsed
      f1 f2 f3]
  obtain st' where
    run: "make_choice example_lib ?api ''choice_1'' example_engine [] =
      (Inr True, example_engine\<lparr>current_state := Some st'\<rparr>,
       sent1 @ [consequence_request prompt])"
    and situation: "current_situation st' = JStr ''X''"
    and log: "timeline_alterations st' = timeline_alterations ?st @ [JStr ''A'']"
    and flag: "is_complete st'"
    by blast
  have returned: "fst (make_choice example_lib ?api ''choice_1'' example_engine []) = Inr True"
    by (simp add: run)
  have session: "current_state (fst (snd (make_choice example_lib ?api ''choice_1''
      example_engine []))) = Some st'"
    by (simp add: run)
  have a: "map_option current_situation (current_state (fst (snd (make_choice example_lib ?api
      ''choice_1'' example_engine [])))) = Some (JStr ''X'')"
    by (simp add: session situation)
  have b: "map_option timeline_alterations (current_state (fst (snd (make_choice example_lib
      ?api ''choice_1'' example_engine [])))) = Some [JStr ''A'']"
    by (simp add: session log new_GameState_def)
  have c: "map_option is_complete (current_state (fst (snd (make_choice example_lib ?api
      ''choice_1'' example_engine [])))) = Some True"
    by (simp add: session flag)
  from example_session(1,2) parsed returned a b c show ?thesis
    by (intro conjI)
qed

theorem make_choice_history_witness:
  "fst (make_choice example_lib service_down ''wait'' example_engine []) = Inr True \<and>
   map_option (\<lambda>s. length (choices_made s))
     (current_state (fst (snd (make_choice example_lib service_down ''wait''
        example_engine [])))) = Some 1 \<and>
   fst (make_choice example_lib service_down ''retreat'' example_engine []) = Inr False \<and>
   fst (snd (make_choice example_lib service_down ''retreat'' example_engine [])) =
     example_engine"
proof -
  obtain eng1 sent1 where
    run1: "make_choice example_lib service_down ''wait'' example_engine [] =
      (Inr True, eng1, sent1)"
    using service_down_wait [of example_lib]
    by (cases "make_choice example_lib service_down ''wait'' example_engine []") simp
  obtain eng2 sent2 where
    run2: "make_choice example_lib service_down ''retreat'' example_engine [] =
      (Inr False, eng2, sent2)"
    using service_down_retreat [of example_lib]
    by (cases "make_choice example_lib service_down ''retreat'' example_engine []") simp
  from make_choice_history
    [of example_lib service_down "''wait''" example_engine "[]" eng1 sent1] run1
  obtain st st' where "current_state example_engine = Some st"
    and after: "current_state eng1 = Some st'"
    and "length (choices_made st') = length (choices_made st) + 1"
    by blast
  with example_session(1,3) have grown: "length (choices_made st') = 1"
    by simp
  from make_choice_history
    [of example_lib service_down "''retreat''" example_engine "[]" eng2 sent2] run2
  have same: "eng2 = example_engine"
    by blast
  have a: "fst (make_choice example_lib service_down ''wait'' example_engine []) = Inr True"
    by (simp add: run1)
  have b: "map_option (\<lambda>s. length (choices_made s))
     (current_state (fst (snd (make_choice example_lib service_down ''wait''
        example_engine [])))) = Some 1"
    by (simp add: run1 after grown)
  have c: "fst (make_choice example_lib service_down ''retreat'' example_engine []) = Inr False"
    by (simp add: run2)
  have d: "fst (snd (make_choice example_lib service_down ''retreat'' example_engine [])) =
     example_engine"
    by (simp add: run2 same)
  from a b c d show ?thesis
    by (intro conjI)
qed



end
